theory Spec2Isabelle
  imports Complex_Main "HOL-Library.Word"
begin

section \<open>Data model of the OpenGL renderer core\<close>

text \<open>
  The development embeds the two files of the renderer core,
  \<^verbatim>\<open>modules/video_output/opengl/fragment_shaders.c\<close> and
  \<^verbatim>\<open>modules/video_output/opengl/renderer.c\<close>.

  Conventions of the embedding:
  \<^item> a C \<^verbatim>\<open>float\<close> or \<^verbatim>\<open>double\<close> is a \<^typ>\<open>real\<close>: rounding is not modelled, and
    \<^verbatim>\<open>tanf\<close>, \<^verbatim>\<open>atanf\<close>, \<^verbatim>\<open>sinf\<close>, \<^verbatim>\<open>sqrtf\<close>, \<^verbatim>\<open>sincosf\<close> are the real functions;
  \<^item> a C array is a list, written by index with \<open>xs[i := v]\<close>; every array of the
    code has a fixed size, which the theorems assume of the lists they start from;
  \<^item> the \<^verbatim>\<open>unsigned\<close> fields of a video format are 32-bit words;
  \<^item> a function that writes through a pointer returns the new value of what it writes;
  \<^item> the build without libplacebo is the one modelled (\<^verbatim>\<open>HAVE_LIBPLACEBO\<close> undefined),
    and log messages are left out.
\<close>

subsection \<open>Codes and enumerations\<close>

datatype vlc_status = VLC_SUCCESS | VLC_EGENERIC | VLC_ENOMEM | VLC_EBADVAR

text \<open>
  A \<^verbatim>\<open>vlc_fourcc_t\<close> is written as its four characters. The codes below are the ones
  the two files name; their spelling is the one of \<^verbatim>\<open>vlc_fourcc.h\<close>, and only their
  being pairwise distinct matters here.
\<close>

type_synonym vlc_fourcc_t = string

definition VLC_CODEC_P010 :: vlc_fourcc_t where "VLC_CODEC_P010 = ''P010''"
definition VLC_CODEC_P016 :: vlc_fourcc_t where "VLC_CODEC_P016 = ''P016''"
definition VLC_CODEC_YV12 :: vlc_fourcc_t where "VLC_CODEC_YV12 = ''YV12''"
definition VLC_CODEC_YV9 :: vlc_fourcc_t where "VLC_CODEC_YV9 = ''YVU9''"
definition VLC_CODEC_NV21 :: vlc_fourcc_t where "VLC_CODEC_NV21 = ''NV21''"
definition VLC_CODEC_UYVY :: vlc_fourcc_t where "VLC_CODEC_UYVY = ''UYVY''"
definition VLC_CODEC_YUYV :: vlc_fourcc_t where "VLC_CODEC_YUYV = ''YUY2''"
definition VLC_CODEC_VYUY :: vlc_fourcc_t where "VLC_CODEC_VYUY = ''VYUY''"
definition VLC_CODEC_YVYU :: vlc_fourcc_t where "VLC_CODEC_YVYU = ''YVYU''"
definition VLC_CODEC_XYZ12 :: vlc_fourcc_t where "VLC_CODEC_XYZ12 = ''XY12''"

lemmas vlc_codec_defs =
  VLC_CODEC_P010_def VLC_CODEC_P016_def VLC_CODEC_YV12_def VLC_CODEC_YV9_def
  VLC_CODEC_NV21_def VLC_CODEC_UYVY_def VLC_CODEC_YUYV_def VLC_CODEC_VYUY_def
  VLC_CODEC_YVYU_def VLC_CODEC_XYZ12_def

datatype video_color_space_t =
  COLOR_SPACE_UNDEF | COLOR_SPACE_BT601 | COLOR_SPACE_BT709 | COLOR_SPACE_BT2020

datatype video_color_range_t = COLOR_RANGE_UNDEF | COLOR_RANGE_FULL | COLOR_RANGE_LIMITED

datatype video_projection_mode_t =
  PROJECTION_MODE_RECTANGULAR
| PROJECTION_MODE_EQUIRECTANGULAR
| PROJECTION_MODE_CUBEMAP_LAYOUT_STANDARD

type_synonym GLenum = nat

definition GL_TEXTURE_2D :: GLenum where "GL_TEXTURE_2D = 0x0DE1"
definition GL_TEXTURE_RECTANGLE :: GLenum where "GL_TEXTURE_RECTANGLE = 0x84F5"
definition GL_TEXTURE_EXTERNAL_OES :: GLenum where "GL_TEXTURE_EXTERNAL_OES = 0x8D65"

lemmas gl_target_defs =
  GL_TEXTURE_2D_def GL_TEXTURE_RECTANGLE_def GL_TEXTURE_EXTERNAL_OES_def

definition PICTURE_PLANE_MAX :: nat where "PICTURE_PLANE_MAX = 5"

subsection \<open>Structures\<close>

record vlc_chroma_description_t =
  plane_count :: nat
  pixel_size :: nat
  pixel_bits :: nat

record video_format_t =
  i_chroma :: vlc_fourcc_t
  i_width :: "32 word"
  i_height :: "32 word"
  i_x_offset :: "32 word"
  i_y_offset :: "32 word"
  i_visible_width :: "32 word"
  i_visible_height :: "32 word"
  space :: video_color_space_t
  color_range :: video_color_range_t
  projection_mode :: video_projection_mode_t
  i_cubemap_padding :: "32 word"

record picture_t =
  format :: video_format_t

record vlc_viewpoint_t =
  yaw :: real
  pitch :: real
  roll :: real
  fov :: real

record vlc_rational_t =
  num :: nat
  den :: nat

record vlc_gl_tex_cfg =
  w :: vlc_rational_t
  h :: vlc_rational_t

record vlc_gl_interop =
  tex_target :: GLenum
  tex_count :: nat
  texs :: "vlc_gl_tex_cfg list"
  sw_fmt :: video_format_t
  interop_fmt :: video_format_t
  api_extensions :: string

text \<open>
  The two function pointers \<^verbatim>\<open>pf_fetch_locations\<close> and \<^verbatim>\<open>pf_prepare_shader\<close> of a
  renderer point to one of two pairs of functions, or are still null.
\<close>

datatype shader_callbacks = CALLBACKS_NULL | CALLBACKS_XYZ12 | CALLBACKS_BASE

record vlc_gl_renderer =
  interop :: vlc_gl_interop
  fmt :: video_format_t
  glsl_version :: nat
  glsl_precision_header :: string
  conv_matrix :: "real list"
  yuv_color :: bool
  pf_fetch_locations :: shader_callbacks
  pf_prepare_shader :: shader_callbacks
  f_fovx :: real
  f_fovy :: real
  f_z :: real
  f_sar :: real
  vp :: vlc_viewpoint_t
  var_ProjectionMatrix :: "real list"
  var_ZoomMatrix :: "real list"
  var_ViewMatrix :: "real list"
  var_TexCoordsMap :: "real list list"
  last_source :: video_format_t
  textures :: "nat list"
  tex_width :: "int list"
  tex_height :: "int list"

text \<open>
  What the two files call and do not define: functions of the VLC core and of the
  interop layer, the two bounds of the field of view, the outcome of each allocation,
  and whether assertions are compiled out.
\<close>

record collaborators =
  vlc_fourcc_IsYUV :: "vlc_fourcc_t \<Rightarrow> bool"
  vlc_fourcc_GetChromaDescription :: "vlc_fourcc_t \<Rightarrow> vlc_chroma_description_t option"
  vlc_gl_StrHasToken :: "string \<Rightarrow> string \<Rightarrow> bool"
  vlc_memstream_open_ok :: bool
  vlc_memstream_close_ok :: bool
  strdup_ok :: bool
  asprintf_ok :: bool
  vlc_alloc_ok :: "nat \<Rightarrow> nat \<Rightarrow> bool"
  vlc_viewpoint_reverse :: "vlc_viewpoint_t \<Rightarrow> vlc_viewpoint_t"
  vlc_viewpoint_to_4x4 :: "vlc_viewpoint_t \<Rightarrow> real list"
  FIELD_OF_VIEW_DEGREES_MIN :: real
  FIELD_OF_VIEW_DEGREES_MAX :: real
  update_textures ::
    "vlc_gl_interop \<Rightarrow> nat list \<Rightarrow> int list \<Rightarrow> int list \<Rightarrow> picture_t \<Rightarrow> vlc_status"
  NDEBUG :: bool

section \<open>The colour conversion matrix (fragment\_shaders.c)\<close>

definition MATRIX_COLOR_RANGE_LIMITED :: "real list" where
  "MATRIX_COLOR_RANGE_LIMITED =
    [255 / 219, 0, 0, - (255 / 219) * (16 / 255),
     0, 255 / 224, 0, - (255 / 224) * (128 / 255),
     0, 0, 255 / 224, - (255 / 224) * (128 / 255)]"

definition MATRIX_COLOR_RANGE_FULL :: "real list" where
  "MATRIX_COLOR_RANGE_FULL =
    [1, 0, 0, 0,
     0, 1, 0, - (128 / 255),
     0, 0, 1, - (128 / 255)]"

definition MATRIX_YUV_TO_RGB' :: "real \<Rightarrow> real \<Rightarrow> real \<Rightarrow> real list" where
  "MATRIX_YUV_TO_RGB' KR KG KB =
    [1, 0, 2 * (1 - KR),
     1, - 2 * (1 - KB) * (KB / KG), - 2 * (1 - KR) * (KR / KG),
     1, 2 * (1 - KB), 0]"

definition MATRIX_YUV_TO_RGB :: "real \<Rightarrow> real \<Rightarrow> real list" where
  "MATRIX_YUV_TO_RGB KR KB = MATRIX_YUV_TO_RGB' KR (1 - KR - KB) KB"

definition MATRIX_BT601 :: "real list" where
  "MATRIX_BT601 = MATRIX_YUV_TO_RGB 0.299 0.114"

definition MATRIX_BT709 :: "real list" where
  "MATRIX_BT709 = MATRIX_YUV_TO_RGB 0.2126 0.0722"

definition MATRIX_BT2020 :: "real list" where
  "MATRIX_BT2020 = MATRIX_YUV_TO_RGB 0.2627 0.0593"

text \<open>The innermost loop of \<^verbatim>\<open>init_conv_matrix\<close>: the sum over \<open>k\<close>.\<close>

definition conv_matrix_sum :: "real list \<Rightarrow> real list \<Rightarrow> nat \<Rightarrow> nat \<Rightarrow> real" where
  "conv_matrix_sum space_matrix range_matrix x y =
    fold (\<lambda>k sum. sum + space_matrix ! (y * 3 + k) * range_matrix ! (k * 4 + x)) [0..<3] 0"

definition init_conv_matrix ::
  "real list \<Rightarrow> video_color_space_t \<Rightarrow> video_color_range_t \<Rightarrow> real list" where
  "init_conv_matrix conv_matrix_out color_space color_range' =
    (let space_matrix =
           (case color_space of
              COLOR_SPACE_BT601 \<Rightarrow> MATRIX_BT601
            | COLOR_SPACE_BT2020 \<Rightarrow> MATRIX_BT2020
            | _ \<Rightarrow> MATRIX_BT709);
         range_matrix =
           (if color_range' = COLOR_RANGE_FULL then MATRIX_COLOR_RANGE_FULL
            else MATRIX_COLOR_RANGE_LIMITED);
         m = fold (\<lambda>x m. fold (\<lambda>y m.
                 m[x * 4 + y := conv_matrix_sum space_matrix range_matrix x y]) [0..<3] m)
               [0..<4] conv_matrix_out
     in m[3 := 0, 7 := 0, 11 := 0, 15 := 1])"

text \<open>
  The scaling loop of \<^verbatim>\<open>renderer_yuv_base_init\<close>, for samples stored on the low bits
  of two bytes: the first twelve floats of the array are multiplied by the correction.
  \<^verbatim>\<open>1 << pixel_bits\<close> is a shift of an \<^verbatim>\<open>int\<close>, which is \<open>2 ^ pixel_bits\<close> below 31 bits.
\<close>

definition yuv_range_correction :: "nat \<Rightarrow> real" where
  "yuv_range_correction bits = real_of_int (2 ^ 16 - 1) / real_of_int (2 ^ bits - 1)"

definition scale_conv_matrix :: "real \<Rightarrow> real list \<Rightarrow> real list" where
  "scale_conv_matrix c matrix = fold (\<lambda>i m. m[i := m ! i * c]) [0..<4 * 3] matrix"

text \<open>
  \<^verbatim>\<open>memcpy\<close> of \<open>n\<close> elements from offset \<open>so\<close> of \<open>src\<close> to offset \<open>d\<close> of \<open>dst\<close>,
  both ranges inside their arrays.
\<close>

definition memcpy :: "'a list \<Rightarrow> nat \<Rightarrow> 'a list \<Rightarrow> nat \<Rightarrow> nat \<Rightarrow> 'a list" where
  "memcpy dst d src so n = take d dst @ take n (drop so src) @ drop (d + n) dst"

text \<open>
  The body of \<^verbatim>\<open>if (swap_uv)\<close> in \<^verbatim>\<open>renderer_yuv_base_init\<close>: three copies through the
  temporary \<open>tmp\<close> of four floats.
\<close>

definition swap_uv_columns :: "real list \<Rightarrow> real list" where
  "swap_uv_columns matrix =
    (let tmp = memcpy (replicate 4 0) 0 matrix 4 4;
         m1 = memcpy matrix 4 matrix 8 4;
         m2 = memcpy m1 8 tmp 0 4
     in m2)"

definition renderer_yuv_base_init ::
  "vlc_gl_renderer \<Rightarrow> vlc_fourcc_t \<Rightarrow> vlc_chroma_description_t \<Rightarrow> video_color_space_t
    \<Rightarrow> vlc_status \<times> vlc_gl_renderer" where
  "renderer_yuv_base_init renderer chroma desc yuv_space =
    (let range = COLOR_RANGE_LIMITED;
         matrix = init_conv_matrix (conv_matrix renderer) yuv_space range;
         matrix =
           (if pixel_size desc = 2 then
              (if chroma \<noteq> VLC_CODEC_P010 \<and> chroma \<noteq> VLC_CODEC_P016
               then scale_conv_matrix (yuv_range_correction (pixel_bits desc)) matrix
               else matrix)
            else matrix);
         swap_uv = (chroma = VLC_CODEC_YV12 \<or> chroma = VLC_CODEC_YV9 \<or> chroma = VLC_CODEC_NV21);
         matrix = (if swap_uv then swap_uv_columns matrix else matrix)
     in (VLC_SUCCESS, renderer\<lparr>conv_matrix := matrix, yuv_color := True\<rparr>))"

section \<open>The fragment shader generator (fragment\_shaders.c)\<close>

text \<open>
  A failed assertion ends the process. So does, in this model, the undefined behaviour of
  \<^verbatim>\<open>vlc_assert_unreachable()\<close> and of reading a null swizzle string when assertions are
  compiled out. The other outcome of a function is its return value.
\<close>

datatype abort = ASSERTION_FAILED string | UNDEFINED_BEHAVIOUR

definition nl :: string where
  "nl = [CHR 0x0A]"

text \<open>What \<^verbatim>\<open>%u\<close> prints: the decimal digits of an unsigned number.\<close>

fun string_of_nat :: "nat \<Rightarrow> string" where
  "string_of_nat n =
    (if n < 10 then [char_of (48 + n)]
     else string_of_nat (n div 10) @ [char_of (48 + n mod 10)])"

declare string_of_nat.simps [simp del]

definition GL_RED :: GLenum where "GL_RED = 0x1903"
definition GL_LUMINANCE :: GLenum where "GL_LUMINANCE = 0x1909"

definition xyz12_template :: string where
  "xyz12_template =
    ''uniform sampler2D Texture0;'' @
    ''uniform vec4 xyz_gamma = vec4(2.6);'' @
    ''uniform vec4 rgb_gamma = vec4(1.0/2.2);'' @
    ''uniform mat4 matrix_xyz_rgb = mat4('' @
    ''    3.240454 , -0.9692660, 0.0556434, 0.0,'' @
    ''   -1.5371385,  1.8760108, -0.2040259, 0.0,'' @
    ''    -0.4985314, 0.0415560, 1.0572252,  0.0,'' @
    ''    0.0,      0.0,         0.0,        1.0 '' @
    '' );'' @
    ''uniform mat4 TransformMatrix;'' @ nl @
    ''uniform mat4 OrientationMatrix;'' @ nl @
    ''uniform mat3 TexCoordsMap0;'' @ nl @
    ''vec4 vlc_texture(vec2 pic_coords)'' @ nl @
    ''{ '' @
    '' vec4 v_in, v_out;'' @
    '' vec3 pic_hcoords = vec3((TransformMatrix * OrientationMatrix * vec4(pic_coords, 0.0, 1.0)).st, 1.0);'' @ nl @
    '' vec2 tex_coords = (TexCoordsMap0 * pic_hcoords).st;'' @ nl @
    '' v_in  = texture2D(Texture0, tex_coords);'' @ nl @
    '' v_in = pow(v_in, xyz_gamma);'' @
    '' v_out = matrix_xyz_rgb * v_in ;'' @
    '' v_out = pow(v_out, rgb_gamma) ;'' @
    '' v_out = clamp(v_out, 0.0, 1.0) ;'' @
    '' return v_out;'' @
    ''}'' @ nl"

definition xyz12_shader_init ::
  "collaborators \<Rightarrow> vlc_gl_renderer \<Rightarrow> vlc_gl_renderer \<times> string option" where
  "xyz12_shader_init env renderer =
    (renderer\<lparr>pf_fetch_locations := CALLBACKS_XYZ12, pf_prepare_shader := CALLBACKS_XYZ12\<rparr>,
     if strdup_ok env then Some xyz12_template else None)"

text \<open>
  \<^verbatim>\<open>opengl_init_swizzle\<close> fills the array of swizzle strings, one per texture, and returns
  a status; its \<^verbatim>\<open>default:\<close> case asserts, and returns \<^verbatim>\<open>VLC_EGENERIC\<close> when assertions are
  compiled out.
\<close>

definition opengl_init_swizzle ::
  "collaborators \<Rightarrow> vlc_gl_interop \<Rightarrow> string option list \<Rightarrow> vlc_fourcc_t
    \<Rightarrow> vlc_chroma_description_t \<Rightarrow> abort + (vlc_status \<times> string option list)" where
  "opengl_init_swizzle env interop' swizzle_per_tex chroma desc =
    (let oneplane_texfmt =
           (if vlc_gl_StrHasToken env (api_extensions interop') ''GL_ARB_texture_rg''
            then GL_RED else GL_LUMINANCE)
     in if plane_count desc = 3 then
          Inr (VLC_SUCCESS, swizzle_per_tex[2 := Some ''r'', 1 := Some ''r'', 0 := Some ''r''])
        else if plane_count desc = 2 then
          (if oneplane_texfmt = GL_RED
           then Inr (VLC_SUCCESS, swizzle_per_tex[0 := Some ''r'', 1 := Some ''rg''])
           else Inr (VLC_SUCCESS, swizzle_per_tex[0 := Some ''x'', 1 := Some ''xa'']))
        else if plane_count desc = 1 then
          (if chroma = VLC_CODEC_UYVY then Inr (VLC_SUCCESS, swizzle_per_tex[0 := Some ''grb''])
           else if chroma = VLC_CODEC_YUYV then Inr (VLC_SUCCESS, swizzle_per_tex[0 := Some ''rga''])
           else if chroma = VLC_CODEC_VYUY then Inr (VLC_SUCCESS, swizzle_per_tex[0 := Some ''gbr''])
           else if chroma = VLC_CODEC_YVYU then Inr (VLC_SUCCESS, swizzle_per_tex[0 := Some ''rag''])
           else if NDEBUG env then Inr (VLC_EGENERIC, swizzle_per_tex)
           else Inl (ASSERTION_FAILED ''missing chroma''))
        else Inr (VLC_SUCCESS, swizzle_per_tex))"

text \<open>
  The block \<^verbatim>\<open>if (is_yuv) { ... }\<close> of \<^verbatim>\<open>opengl_fragment_shader_init\<close>: the result
  \<open>None\<close> beside the renderer is one of its two \<^verbatim>\<open>return NULL\<close>.
\<close>

definition fragment_shader_yuv_block ::
  "collaborators \<Rightarrow> vlc_gl_renderer \<Rightarrow> string option list \<Rightarrow> vlc_fourcc_t
    \<Rightarrow> vlc_chroma_description_t \<Rightarrow> video_color_space_t
    \<Rightarrow> abort + (vlc_gl_renderer \<times> string option list option)" where
  "fragment_shader_yuv_block env renderer swizzle_per_tex chroma desc yuv_space =
    (case renderer_yuv_base_init renderer chroma desc yuv_space of
       (ret, renderer) \<Rightarrow>
         if ret \<noteq> VLC_SUCCESS then Inr (renderer, None)
         else
           (case opengl_init_swizzle env (interop renderer) swizzle_per_tex chroma desc of
              Inl a \<Rightarrow> Inl a
            | Inr (ret, swizzle_per_tex) \<Rightarrow>
                if ret \<noteq> VLC_SUCCESS then Inr (renderer, None)
                else Inr (renderer, Some swizzle_per_tex)))"

text \<open>The \<^verbatim>\<open>switch (tex_target)\<close>: the sampler type and the lookup function.\<close>

definition sampler_lookup :: "GLenum \<Rightarrow> abort + (string \<times> string)" where
  "sampler_lookup target =
    (if target = GL_TEXTURE_EXTERNAL_OES then Inr (''samplerExternalOES'', ''texture2D'')
     else if target = GL_TEXTURE_2D then Inr (''sampler2D'', ''texture2D'')
     else if target = GL_TEXTURE_RECTANGLE then Inr (''sampler2DRect'', ''texture2DRect'')
     else Inl UNDEFINED_BEHAVIOUR)"

text \<open>
  The loop over \<open>j\<close> inside the loop over the textures: one assignment per letter of the
  swizzle string, and the assertion on \<open>color_idx\<close>.
\<close>

definition swizzle_loop ::
  "collaborators \<Rightarrow> string \<Rightarrow> string \<times> nat \<Rightarrow> abort + (string \<times> nat)" where
  "swizzle_loop env swizzle start =
    fold (\<lambda>j acc.
        case acc of
          Inl a \<Rightarrow> Inl a
        | Inr (ms, color_idx) \<Rightarrow>
            (let ms = ms @ '' pixel['' @ string_of_nat color_idx @ ''] = texel.''
                        @ [swizzle ! j] @ '';'' @ nl;
                 color_idx = color_idx + 1
             in if \<not> NDEBUG env \<and> \<not> color_idx \<le> PICTURE_PLANE_MAX
                then Inl (ASSERTION_FAILED ''color_idx <= PICTURE_PLANE_MAX'')
                else Inr (ms, color_idx)))
      [0..<length swizzle] (Inr start)"

text \<open>The loop over the textures in the branch \<^verbatim>\<open>if (is_yuv)\<close> that writes the body.\<close>

definition yuv_texture_loop ::
  "collaborators \<Rightarrow> vlc_gl_interop \<Rightarrow> GLenum \<Rightarrow> string \<Rightarrow> string option list
    \<Rightarrow> string \<times> nat \<Rightarrow> abort + (string \<times> nat)" where
  "yuv_texture_loop env interop' target lookup swizzle_per_tex start =
    fold (\<lambda>i acc.
        case acc of
          Inl a \<Rightarrow> Inl a
        | Inr (ms, color_idx) \<Rightarrow>
            (case (if i < length swizzle_per_tex then swizzle_per_tex ! i else None) of
               None \<Rightarrow>
                 Inl (if NDEBUG env then UNDEFINED_BEHAVIOUR else ASSERTION_FAILED ''swizzle'')
             | Some swizzle \<Rightarrow>
                 (let ms = ms @ '' tex_coords = (TexCoordsMap'' @ string_of_nat i
                             @ '' * pic_hcoords).st;'' @ nl;
                      ms = (if target = GL_TEXTURE_RECTANGLE
                            then ms @ '' tex_coords = vec2(tex_coords.x * TexSize''
                                   @ string_of_nat i @ ''.x,'' @ nl
                                   @ ''                   tex_coords.y * TexSize''
                                   @ string_of_nat i @ ''.y);'' @ nl
                            else ms);
                      ms = ms @ '' texel = '' @ lookup @ ''(Texture'' @ string_of_nat i
                             @ '', tex_coords);'' @ nl
                  in swizzle_loop env swizzle (ms, color_idx))))
      [0..<tex_count interop'] (Inr start)"

text \<open>
  The text written to the memory stream between its opening and its closing, with the
  assertion on the number of colour components.
\<close>

definition fragment_shader_text ::
  "collaborators \<Rightarrow> vlc_gl_interop \<Rightarrow> GLenum \<Rightarrow> bool \<Rightarrow> video_color_space_t
    \<Rightarrow> string option list \<Rightarrow> string \<Rightarrow> string \<Rightarrow> abort + string" where
  "fragment_shader_text env interop' target is_yuv yuv_space swizzle_per_tex sampler lookup =
    (let ms = ''uniform mat4 TransformMatrix;'' @ nl
            @ ''uniform mat4 OrientationMatrix;'' @ nl;
         ms = fold (\<lambda>i ms. ms @ ''uniform '' @ sampler @ '' Texture'' @ string_of_nat i
                      @ '';'' @ nl
                      @ ''uniform mat3 TexCoordsMap'' @ string_of_nat i @ '';'' @ nl)
                [0..<tex_count interop'] ms;
         ms = (if target = GL_TEXTURE_RECTANGLE
               then fold (\<lambda>i ms. ms @ ''uniform vec2 TexSize'' @ string_of_nat i @ '';'' @ nl)
                      [0..<tex_count interop'] ms
               else ms);
         ms = (if is_yuv then ms @ ''uniform mat4 ConvMatrix;'' @ nl else ms);
         ms = ms @ ''uniform vec4 FillColor;'' @ nl
            @ ''vec4 vlc_texture(vec2 pic_coords) {'' @ nl
            @ '' vec3 pic_hcoords = vec3((TransformMatrix * OrientationMatrix * vec4(pic_coords, 0.0, 1.0)).st, 1.0);'' @ nl
            @ '' vec2 tex_coords;'' @ nl;
         body =
           (if is_yuv then
              (case yuv_texture_loop env interop' target lookup swizzle_per_tex
                      (ms @ '' vec4 texel;'' @ nl
                          @ '' vec4 pixel = vec4(0.0, 0.0, 0.0, 1.0);'' @ nl, 0) of
                 Inl a \<Rightarrow> Inl a
               | Inr (ms, color_idx) \<Rightarrow>
                   Inr (ms @ '' vec4 result = ConvMatrix * pixel;'' @ nl, color_idx))
            else
              Inr (ms @ '' tex_coords = (TexCoordsMap0 * pic_hcoords).st;'' @ nl
                      @ '' vec4 result = '' @ lookup @ ''(Texture0, tex_coords);'' @ nl,
                   1))
     in case body of
          Inl a \<Rightarrow> Inl a
        | Inr (ms, color_count) \<Rightarrow>
            if \<not> NDEBUG env \<and> \<not> (yuv_space = COLOR_SPACE_UNDEF \<or> color_count = 3)
            then Inl (ASSERTION_FAILED ''yuv_space == COLOR_SPACE_UNDEF || color_count == 3'')
            else Inr (ms @ '' return result * FillColor;'' @ nl @ ''}'' @ nl))"

definition opengl_fragment_shader_init ::
  "collaborators \<Rightarrow> vlc_gl_renderer \<Rightarrow> GLenum \<Rightarrow> vlc_fourcc_t \<Rightarrow> video_color_space_t
    \<Rightarrow> abort + (vlc_gl_renderer \<times> string option)" where
  "opengl_fragment_shader_init env renderer target chroma yuv_space =
    (let interop' = interop renderer;
         swizzle_per_tex = replicate PICTURE_PLANE_MAX None;
         is_yuv = vlc_fourcc_IsYUV env chroma
     in case vlc_fourcc_GetChromaDescription env chroma of
          None \<Rightarrow> Inr (renderer, None)
        | Some desc \<Rightarrow>
            if chroma = VLC_CODEC_XYZ12 then Inr (xyz12_shader_init env renderer)
            else
              (case (if is_yuv
                     then fragment_shader_yuv_block env renderer swizzle_per_tex chroma desc
                            yuv_space
                     else Inr (renderer, Some swizzle_per_tex)) of
                 Inl a \<Rightarrow> Inl a
               | Inr (renderer, None) \<Rightarrow> Inr (renderer, None)
               | Inr (renderer, Some swizzle_per_tex) \<Rightarrow>
                   (case sampler_lookup target of
                      Inl a \<Rightarrow> Inl a
                    | Inr (sampler, lookup) \<Rightarrow>
                        if \<not> vlc_memstream_open_ok env then Inr (renderer, None)
                        else
                          (case fragment_shader_text env interop' target is_yuv yuv_space
                                  swizzle_per_tex sampler lookup of
                             Inl a \<Rightarrow> Inl a
                           | Inr ms \<Rightarrow>
                               if \<not> vlc_memstream_close_ok env then Inr (renderer, None)
                               else Inr (renderer\<lparr>pf_fetch_locations := CALLBACKS_BASE,
                                                   pf_prepare_shader := CALLBACKS_BASE\<rparr>,
                                         Some ms)))))"

section \<open>The renderer (renderer.c)\<close>

subsection \<open>Building the fragment shader\<close>

definition BuildFragmentShader ::
  "collaborators \<Rightarrow> vlc_gl_renderer \<Rightarrow> abort + (vlc_gl_renderer \<times> string option)" where
  "BuildFragmentShader env renderer =
    (let interop' = interop renderer
     in case opengl_fragment_shader_init env renderer (tex_target interop')
               (i_chroma (sw_fmt interop')) (space (sw_fmt interop')) of
          Inl a \<Rightarrow> Inl a
        | Inr (renderer, None) \<Rightarrow> Inr (renderer, None)
        | Inr (renderer, Some vlc_texture) \<Rightarrow>
            (let extensions =
                   (if tex_target interop' = GL_TEXTURE_EXTERNAL_OES
                    then ''#extension GL_OES_EGL_image_external : require'' @ nl
                    else []);
                 code = ''#version '' @ string_of_nat (glsl_version renderer) @ nl
                      @ extensions
                      @ glsl_precision_header renderer
                      @ vlc_texture
                      @ ''varying vec2 PicCoords;'' @ nl
                      @ ''void main() {'' @ nl
                      @ '' gl_FragColor = vlc_texture(PicCoords);'' @ nl
                      @ ''}'' @ nl
             in if \<not> asprintf_ok env then Inr (renderer, None)
                else Inr (renderer, Some code)))"

subsection \<open>Projection, zoom and view matrices\<close>

definition SPHERE_RADIUS :: real where
  "SPHERE_RADIUS = 1"

definition identity :: "real list" where
  "identity =
    [1, 0, 0, 0,
     0, 1, 0, 0,
     0, 0, 1, 0,
     0, 0, 0, 1]"

definition getZoomMatrix :: "real \<Rightarrow> real list" where
  "getZoomMatrix zoom =
    [1, 0, 0, 0,
     0, 1, 0, 0,
     0, 0, 1, 0,
     0, 0, zoom, 1]"

definition getProjectionMatrix :: "real \<Rightarrow> real \<Rightarrow> real list" where
  "getProjectionMatrix sar fovy =
    (let zFar = 1000;
         zNear = 0.01;
         f = 1 / tan (fovy / 2)
     in [f / sar, 0, 0, 0,
         0, f, 0, 0,
         0, 0, (zNear + zFar) / (zNear - zFar), - 1,
         0, 0, (2 * zNear * zFar) / (zNear - zFar), 0])"

definition getViewpointMatrixes ::
  "collaborators \<Rightarrow> vlc_gl_renderer \<Rightarrow> video_projection_mode_t \<Rightarrow> vlc_gl_renderer" where
  "getViewpointMatrixes env renderer mode =
    (if mode = PROJECTION_MODE_EQUIRECTANGULAR
        \<or> mode = PROJECTION_MODE_CUBEMAP_LAYOUT_STANDARD
     then renderer\<lparr>
            var_ProjectionMatrix := getProjectionMatrix (f_sar renderer) (f_fovy renderer),
            var_ZoomMatrix := getZoomMatrix (f_z renderer),
            var_ViewMatrix := vlc_viewpoint_to_4x4 env (vp renderer)\<rparr>
     else renderer\<lparr>
            var_ProjectionMatrix := identity,
            var_ZoomMatrix := identity,
            var_ViewMatrix := identity\<rparr>)"

subsection \<open>Field of view and viewpoint\<close>

definition UpdateZ :: "collaborators \<Rightarrow> vlc_gl_renderer \<Rightarrow> vlc_gl_renderer" where
  "UpdateZ env renderer =
    (let tan_fovx_2 = tan (f_fovx renderer / 2);
         tan_fovy_2 = tan (f_fovy renderer / 2);
         z_min = - SPHERE_RADIUS
                 / sin (arctan (sqrt (tan_fovx_2 * tan_fovx_2 + tan_fovy_2 * tan_fovy_2)));
         z_thresh = 90
     in if f_fovx renderer \<le> z_thresh * pi / 180 then renderer\<lparr>f_z := 0\<rparr>
        else
          (let f = z_min / ((FIELD_OF_VIEW_DEGREES_MAX env - z_thresh) * pi / 180);
               z = f * f_fovx renderer - f * z_thresh * pi / 180
           in if z < z_min then renderer\<lparr>f_z := z_min\<rparr> else renderer\<lparr>f_z := z\<rparr>))"

definition UpdateFOVy :: "vlc_gl_renderer \<Rightarrow> vlc_gl_renderer" where
  "UpdateFOVy renderer =
    renderer\<lparr>f_fovy := 2 * arctan (tan (f_fovx renderer / 2) / f_sar renderer)\<rparr>"

definition vlc_gl_renderer_SetViewpoint ::
  "collaborators \<Rightarrow> vlc_gl_renderer \<Rightarrow> vlc_viewpoint_t \<Rightarrow> vlc_status \<times> vlc_gl_renderer" where
  "vlc_gl_renderer_SetViewpoint env renderer p_vp =
    (if fov p_vp > FIELD_OF_VIEW_DEGREES_MAX env \<or> fov p_vp < FIELD_OF_VIEW_DEGREES_MIN env
     then (VLC_EBADVAR, renderer)
     else
       (let fovx = fov p_vp * pi / 180;
            renderer = renderer\<lparr>vp := vlc_viewpoint_reverse env p_vp\<rparr>;
            renderer =
              (if \<bar>fovx - f_fovx renderer\<bar> \<ge> 0.001
               then UpdateZ env (UpdateFOVy (renderer\<lparr>f_fovx := fovx\<rparr>))
               else renderer);
            renderer = getViewpointMatrixes env renderer (projection_mode (fmt renderer))
        in (VLC_SUCCESS, renderer)))"

definition vlc_gl_renderer_SetWindowAspectRatio ::
  "collaborators \<Rightarrow> vlc_gl_renderer \<Rightarrow> real \<Rightarrow> vlc_gl_renderer" where
  "vlc_gl_renderer_SetWindowAspectRatio env renderer sar =
    (let renderer = renderer\<lparr>f_sar := sar\<rparr>;
         renderer = UpdateFOVy renderer;
         renderer = UpdateZ env renderer
     in getViewpointMatrixes env renderer (projection_mode (fmt renderer)))"

subsection \<open>Geometry\<close>

text \<open>
  What a builder hands back through its five pointer arguments. An array from
  \<^verbatim>\<open>vlc_alloc\<close> starts here with zeros; the builders write every element before they return.
  \<^verbatim>\<open>sizeof(GLfloat)\<close> is 4 and \<^verbatim>\<open>sizeof(GLushort)\<close> is 2.
\<close>

record geometry =
  vertexCoord :: "real list"
  textureCoord :: "real list"
  nbVertices :: nat
  indices :: "16 word list"
  nbIndices :: nat

text \<open>The body of the two nested loops of \<^verbatim>\<open>BuildSphere\<close> that write the vertices.\<close>

definition sphere_vertex ::
  "nat \<Rightarrow> nat \<Rightarrow> nat \<Rightarrow> nat \<Rightarrow> real list \<times> real list \<Rightarrow> real list \<times> real list" where
  "sphere_vertex nbLatBands nbLonBands lat lon arrays =
    (case arrays of (vcoord, tcoord) \<Rightarrow>
      (let theta = real lat * pi / real nbLatBands;
           sinTheta = sin theta;
           cosTheta = cos theta;
           phi = real (lon * 2) * pi / real nbLonBands;
           sinPhi = sin phi;
           cosPhi = cos phi;
           x = cosPhi * sinTheta;
           y = cosTheta;
           z = sinPhi * sinTheta;
           off1 = (lat * (nbLonBands + 1) + lon) * 3;
           vcoord = vcoord[off1 := SPHERE_RADIUS * x,
                                     off1 + 1 := SPHERE_RADIUS * y,
                                     off1 + 2 := SPHERE_RADIUS * z];
           off2 = (lat * (nbLonBands + 1) + lon) * 2;
           u = real lon / real nbLonBands;
           v = real lat / real nbLatBands;
           tcoord = tcoord[off2 := u, off2 + 1 := v]
       in (vcoord, tcoord)))"

definition sphere_vertices ::
  "nat \<Rightarrow> nat \<Rightarrow> real list \<times> real list \<Rightarrow> real list \<times> real list" where
  "sphere_vertices nbLatBands nbLonBands arrays =
    fold (\<lambda>lat arrays.
        fold (\<lambda>lon arrays. sphere_vertex nbLatBands nbLonBands lat lon arrays)
          [0..<nbLonBands + 1] arrays)
      [0..<nbLatBands + 1] arrays"

text \<open>The body of the two nested loops that write the indices, two triangles per band.\<close>

definition sphere_quad :: "nat \<Rightarrow> nat \<Rightarrow> nat \<Rightarrow> nat \<Rightarrow> 16 word list \<Rightarrow> 16 word list" where
  "sphere_quad nbLatBands nbLonBands lat lon inds =
    (let first = (lat * (nbLonBands + 1)) + lon;
         second = first + nbLonBands + 1;
         off = (lat * nbLatBands + lon) * 3 * 2
     in inds[off := of_nat first,
             off + 1 := of_nat second,
             off + 2 := of_nat (first + 1),
             off + 3 := of_nat second,
             off + 4 := of_nat (second + 1),
             off + 5 := of_nat (first + 1)])"

definition sphere_indices :: "nat \<Rightarrow> nat \<Rightarrow> 16 word list \<Rightarrow> 16 word list" where
  "sphere_indices nbLatBands nbLonBands inds =
    fold (\<lambda>lat inds.
        fold (\<lambda>lon inds. sphere_quad nbLatBands nbLonBands lat lon inds) [0..<nbLonBands] inds)
      [0..<nbLatBands] inds"

text \<open>
  \<^verbatim>\<open>BuildSphere\<close> with its two local constants as parameters; the counts are those of the
  code as long as no \<^verbatim>\<open>unsigned\<close> product wraps, which holds below \<open>2 ^ 14\<close> bands.
\<close>

definition BuildSphere_bands :: "collaborators \<Rightarrow> nat \<Rightarrow> nat \<Rightarrow> vlc_status + geometry" where
  "BuildSphere_bands env nbLatBands nbLonBands =
    (let nbV = (nbLatBands + 1) * (nbLonBands + 1);
         nbI = nbLatBands * nbLonBands * 3 * 2
     in if \<not> vlc_alloc_ok env (nbV * 3) 4 then Inl VLC_ENOMEM
        else if \<not> vlc_alloc_ok env (nbV * 2) 4 then Inl VLC_ENOMEM
        else if \<not> vlc_alloc_ok env nbI 2 then Inl VLC_ENOMEM
        else
          (case sphere_vertices nbLatBands nbLonBands
                  (replicate (nbV * 3) 0, replicate (nbV * 2) 0) of
             (vc, tc) \<Rightarrow>
               Inr \<lparr>vertexCoord = vc, textureCoord = tc, nbVertices = nbV,
                    indices = sphere_indices nbLatBands nbLonBands (replicate nbI 0),
                    nbIndices = nbI\<rparr>))"

definition BuildSphere :: "collaborators \<Rightarrow> vlc_status + geometry" where
  "BuildSphere env = BuildSphere_bands env 128 128"

definition cube_coord :: "real list" where
  "cube_coord =
    [- 1, 1, - 1,   - 1, - 1, - 1,   1, 1, - 1,   1, - 1, - 1,
     - 1, 1, 1,     - 1, - 1, 1,     1, 1, 1,     1, - 1, 1,
     - 1, 1, - 1,   - 1, - 1, - 1,   - 1, 1, 1,   - 1, - 1, 1,
     1, 1, - 1,     1, - 1, - 1,     1, 1, 1,     1, - 1, 1,
     - 1, - 1, 1,   - 1, - 1, - 1,   1, - 1, 1,   1, - 1, - 1,
     - 1, 1, 1,     - 1, 1, - 1,     1, 1, 1,     1, 1, - 1]"

definition cube_tex :: "real \<Rightarrow> real \<Rightarrow> real list" where
  "cube_tex padW padH =
    (let col = [0, 1 / 3, 2 / 3, 1];
         row = [0, 1 / 2, 1]
     in [col ! 1 + padW, row ! 1 + padH,
         col ! 1 + padW, row ! 2 - padH,
         col ! 2 - padW, row ! 1 + padH,
         col ! 2 - padW, row ! 2 - padH,

         col ! 3 - padW, row ! 1 + padH,
         col ! 3 - padW, row ! 2 - padH,
         col ! 2 + padW, row ! 1 + padH,
         col ! 2 + padW, row ! 2 - padH,

         col ! 2 - padW, row ! 0 + padH,
         col ! 2 - padW, row ! 1 - padH,
         col ! 1 + padW, row ! 0 + padH,
         col ! 1 + padW, row ! 1 - padH,

         col ! 0 + padW, row ! 0 + padH,
         col ! 0 + padW, row ! 1 - padH,
         col ! 1 - padW, row ! 0 + padH,
         col ! 1 - padW, row ! 1 - padH,

         col ! 0 + padW, row ! 2 - padH,
         col ! 0 + padW, row ! 1 + padH,
         col ! 1 - padW, row ! 2 - padH,
         col ! 1 - padW, row ! 1 + padH,

         col ! 2 + padW, row ! 0 + padH,
         col ! 2 + padW, row ! 1 - padH,
         col ! 3 - padW, row ! 0 + padH,
         col ! 3 - padW, row ! 1 - padH])"

definition cube_ind :: "16 word list" where
  "cube_ind =
    [0, 1, 2,       2, 1, 3,
     6, 7, 4,       4, 7, 5,
     10, 11, 8,     8, 11, 9,
     12, 13, 14,    14, 13, 15,
     18, 19, 16,    16, 19, 17,
     20, 21, 22,    22, 21, 23]"

definition BuildCube :: "collaborators \<Rightarrow> real \<Rightarrow> real \<Rightarrow> vlc_status + geometry" where
  "BuildCube env padW padH =
    (let nbV = 4 * 6;
         nbI = 6 * 6
     in if \<not> vlc_alloc_ok env (nbV * 3) 4 then Inl VLC_ENOMEM
        else if \<not> vlc_alloc_ok env (nbV * 2) 4 then Inl VLC_ENOMEM
        else if \<not> vlc_alloc_ok env nbI 2 then Inl VLC_ENOMEM
        else
          Inr \<lparr>vertexCoord = memcpy (replicate (nbV * 3) 0) 0 cube_coord 0 (nbV * 3),
               textureCoord = memcpy (replicate (nbV * 2) 0) 0 (cube_tex padW padH) 0 (nbV * 2),
               nbVertices = nbV,
               indices = memcpy (replicate nbI 0) 0 cube_ind 0 nbI,
               nbIndices = nbI\<rparr>)"

subsection \<open>Preparing a picture\<close>

text \<open>
  The body of the loop over the textures in \<^verbatim>\<open>vlc_gl_renderer_Prepare\<close>: the matrix of
  texture \<open>j\<close>, written in the array that \<^verbatim>\<open>memset\<close> has just cleared. The sums of offset and
  size are \<^verbatim>\<open>unsigned\<close> sums, converted to \<^verbatim>\<open>float\<close> afterwards.
\<close>

definition tex_coords_map ::
  "vlc_gl_renderer \<Rightarrow> video_format_t \<Rightarrow> nat \<Rightarrow> real list list \<Rightarrow> real list list" where
  "tex_coords_map renderer source j maps =
    (let interop' = interop renderer;
         scale_w = real (num (w (texs interop' ! j))) / real (den (w (texs interop' ! j)))
                   / real_of_int (tex_width renderer ! j);
         scale_h = real (num (h (texs interop' ! j))) / real (den (h (texs interop' ! j)))
                   / real_of_int (tex_height renderer ! j);
         left = real (unat (i_x_offset source + 0)) * scale_w;
         top = real (unat (i_y_offset source + 0)) * scale_h;
         right = real (unat (i_x_offset source + i_visible_width source)) * scale_w;
         bottom = real (unat (i_y_offset source + i_visible_height source)) * scale_h;
         matrix = maps ! j;
         matrix = matrix[0 * 3 + 0 := right - left];
         matrix = matrix[1 * 3 + 1 := bottom - top];
         matrix = matrix[2 * 3 + 0 := left];
         matrix = matrix[2 * 3 + 1 := top]
     in maps[j := matrix])"

definition vlc_gl_renderer_Prepare ::
  "collaborators \<Rightarrow> vlc_gl_renderer \<Rightarrow> picture_t \<Rightarrow> vlc_status \<times> vlc_gl_renderer" where
  "vlc_gl_renderer_Prepare env renderer picture =
    (let interop' = interop renderer;
         source = format picture;
         renderer =
           (if i_x_offset source \<noteq> i_x_offset (last_source renderer)
               \<or> i_y_offset source \<noteq> i_y_offset (last_source renderer)
               \<or> i_visible_width source \<noteq> i_visible_width (last_source renderer)
               \<or> i_visible_height source \<noteq> i_visible_height (last_source renderer)
            then
              (let maps = replicate PICTURE_PLANE_MAX (replicate (3 * 3) 0);
                   maps = fold (\<lambda>j maps. tex_coords_map renderer source j maps)
                            [0..<tex_count interop'] maps
               in renderer\<lparr>
                    var_TexCoordsMap := maps,
                    last_source := (last_source renderer)\<lparr>
                      i_x_offset := i_x_offset source,
                      i_y_offset := i_y_offset source,
                      i_visible_width := i_visible_width source,
                      i_visible_height := i_visible_height source\<rparr>\<rparr>)
            else renderer)
     in (update_textures env interop' (textures renderer) (tex_width renderer)
           (tex_height renderer) picture,
         renderer))"

definition visible_region :: "video_format_t \<Rightarrow> 32 word \<times> 32 word \<times> 32 word \<times> 32 word" where
  "visible_region f = (i_x_offset f, i_y_offset f, i_visible_width f, i_visible_height f)"

text \<open>The square of the distance from the origin of vertex \<open>k\<close> of an array of vertices.\<close>

definition vertex_norm2 :: "real list \<Rightarrow> nat \<Rightarrow> real" where
  "vertex_norm2 vc k = (vc ! (k * 3))\<^sup>2 + (vc ! (k * 3 + 1))\<^sup>2 + (vc ! (k * 3 + 2))\<^sup>2"

text \<open>
  The same renderer session with another colour range in every format descriptor that it
  holds: the one of the interop layer, the software format and the renderer's copy.
\<close>

definition set_color_range :: "video_color_range_t \<Rightarrow> vlc_gl_renderer \<Rightarrow> vlc_gl_renderer" where
  "set_color_range c renderer =
    renderer\<lparr>
      interop := (interop renderer)\<lparr>
        sw_fmt := (sw_fmt (interop renderer))\<lparr>color_range := c\<rparr>,
        interop_fmt := (interop_fmt (interop renderer))\<lparr>color_range := c\<rparr>\<rparr>,
      fmt := (fmt renderer)\<lparr>color_range := c\<rparr>\<rparr>"

section \<open>Concrete values\<close>

text \<open>
  A renderer session on which the theorems below are tried: a 1920x1080 picture in three
  planes, the second and third at half the size, drawn through \<^verbatim>\<open>GL_TEXTURE_2D\<close>; the
  renderer is the zeroed structure that \<^verbatim>\<open>calloc\<close> returns, with its texture sizes set.
  The field of view is bounded by 20 and 150 degrees, every allocation succeeds and
  assertions are active.
\<close>

definition example_format :: video_format_t where
  "example_format =
    \<lparr>i_chroma = ''I420'', i_width = 1920, i_height = 1088,
     i_x_offset = 0, i_y_offset = 0, i_visible_width = 1920, i_visible_height = 1080,
     space = COLOR_SPACE_BT709, color_range = COLOR_RANGE_FULL,
     projection_mode = PROJECTION_MODE_RECTANGULAR, i_cubemap_padding = 0\<rparr>"

definition zero_format :: video_format_t where
  "zero_format =
    \<lparr>i_chroma = [], i_width = 0, i_height = 0,
     i_x_offset = 0, i_y_offset = 0, i_visible_width = 0, i_visible_height = 0,
     space = COLOR_SPACE_UNDEF, color_range = COLOR_RANGE_UNDEF,
     projection_mode = PROJECTION_MODE_RECTANGULAR, i_cubemap_padding = 0\<rparr>"

definition example_interop :: vlc_gl_interop where
  "example_interop =
    \<lparr>tex_target = GL_TEXTURE_2D, tex_count = 3,
     texs = [\<lparr>w = \<lparr>num = 1, den = 1\<rparr>, h = \<lparr>num = 1, den = 1\<rparr>\<rparr>,
             \<lparr>w = \<lparr>num = 1, den = 2\<rparr>, h = \<lparr>num = 1, den = 2\<rparr>\<rparr>,
             \<lparr>w = \<lparr>num = 1, den = 2\<rparr>, h = \<lparr>num = 1, den = 2\<rparr>\<rparr>],
     sw_fmt = example_format, interop_fmt = example_format,
     api_extensions = ''GL_ARB_texture_rg''\<rparr>"

definition example_renderer :: vlc_gl_renderer where
  "example_renderer =
    \<lparr>interop = example_interop, fmt = example_format,
     glsl_version = 120, glsl_precision_header = [],
     conv_matrix = replicate 16 0, yuv_color = False,
     pf_fetch_locations = CALLBACKS_NULL, pf_prepare_shader = CALLBACKS_NULL,
     f_fovx = 0, f_fovy = 0, f_z = 0, f_sar = 0,
     vp = \<lparr>yaw = 0, pitch = 0, roll = 0, fov = 0\<rparr>,
     var_ProjectionMatrix = replicate 16 0,
     var_ZoomMatrix = replicate 16 0,
     var_ViewMatrix = replicate 16 0,
     var_TexCoordsMap = replicate 5 (replicate 9 0),
     last_source = zero_format,
     textures = [1, 2, 3, 0, 0],
     tex_width = [1920, 960, 960, 0, 0],
     tex_height = [1080, 540, 540, 0, 0]\<rparr>"

definition example_chroma_description :: "vlc_fourcc_t \<Rightarrow> vlc_chroma_description_t option" where
  "example_chroma_description chroma =
    (if chroma = ''I420'' then Some \<lparr>plane_count = 3, pixel_size = 1, pixel_bits = 8\<rparr>
     else if chroma = ''I0AL'' then Some \<lparr>plane_count = 3, pixel_size = 2, pixel_bits = 10\<rparr>
     else if chroma = ''NV12'' then Some \<lparr>plane_count = 2, pixel_size = 1, pixel_bits = 8\<rparr>
     else if chroma = ''UYVY'' then Some \<lparr>plane_count = 1, pixel_size = 2, pixel_bits = 16\<rparr>
     else if chroma = ''GREY'' then Some \<lparr>plane_count = 1, pixel_size = 1, pixel_bits = 8\<rparr>
     else if chroma = ''XY12'' then Some \<lparr>plane_count = 1, pixel_size = 6, pixel_bits = 48\<rparr>
     else if chroma = ''RV32'' then Some \<lparr>plane_count = 1, pixel_size = 4, pixel_bits = 24\<rparr>
     else None)"

definition example_env :: collaborators where
  "example_env =
    \<lparr>vlc_fourcc_IsYUV = (\<lambda>chroma. chroma \<in> {''I420'', ''I0AL'', ''NV12'', ''UYVY'', ''GREY''}),
     vlc_fourcc_GetChromaDescription = example_chroma_description,
     vlc_gl_StrHasToken = (\<lambda>extensions token. extensions = token),
     vlc_memstream_open_ok = True,
     vlc_memstream_close_ok = True,
     strdup_ok = True,
     asprintf_ok = True,
     vlc_alloc_ok = (\<lambda>count size. True),
     vlc_viewpoint_reverse =
       (\<lambda>v. \<lparr>yaw = - yaw v, pitch = - pitch v, roll = - roll v, fov = fov v\<rparr>),
     vlc_viewpoint_to_4x4 = (\<lambda>v. identity),
     FIELD_OF_VIEW_DEGREES_MIN = 20,
     FIELD_OF_VIEW_DEGREES_MAX = 150,
     update_textures = (\<lambda>interop' textures' widths heights picture. VLC_SUCCESS),
     NDEBUG = False\<rparr>"

section \<open>Properties of the colour conversion matrix\<close>

lemma list16:
  "length (m::'a list) = 16 \<Longrightarrow> \<exists>a0 a1 a2 a3 a4 a5 a6 a7 a8 a9 a10 a11 a12 a13 a14 a15.
     m = [a0,a1,a2,a3,a4,a5,a6,a7,a8,a9,a10,a11,a12,a13,a14,a15]"
  by (clarsimp simp: numeral_eq_Suc length_Suc_conv)

lemma swap_uv_columns_explicit:
  "swap_uv_columns [a0,a1,a2,a3,a4,a5,a6,a7,a8,a9,a10,a11,a12,a13,a14,a15]
   = [a0,a1,a2,a3,a8,a9,a10,a11,a4,a5,a6,a7,a12,a13,a14,a15]"
  by (simp add: swap_uv_columns_def memcpy_def)

lemma length_init_conv_matrix:
  "length (init_conv_matrix m cs cr) = length m"
  by (simp add: init_conv_matrix_def Let_def upt_rec)

text \<open>
  Claim C5. For every colour space and every colour range, the matrix that
  \<^verbatim>\<open>init_conv_matrix\<close> leaves in its array of 16 floats has the bottom row \<open>[0, 0, 0, 1]\<close>:
  in the column-major array, the entries 3, 7 and 11 are 0 and the entry 15 is 1,
  whatever the array held before.
\<close>

theorem init_conv_matrix_bottom_row:
  "length m = 16 \<Longrightarrow>
     length (init_conv_matrix m cs cr) = 16
     \<and> init_conv_matrix m cs cr ! 3 = 0 \<and> init_conv_matrix m cs cr ! 7 = 0
     \<and> init_conv_matrix m cs cr ! 11 = 0 \<and> init_conv_matrix m cs cr ! 15 = 1"
  by (simp add: init_conv_matrix_def Let_def upt_rec)

theorem init_conv_matrix_bottom_row_witness:
  "length (replicate 16 (0::real)) = 16
     \<and> length (init_conv_matrix (replicate 16 0) COLOR_SPACE_BT601 COLOR_RANGE_FULL) = 16
     \<and> init_conv_matrix (replicate 16 0) COLOR_SPACE_BT601 COLOR_RANGE_FULL ! 3 = 0
     \<and> init_conv_matrix (replicate 16 0) COLOR_SPACE_BT601 COLOR_RANGE_FULL ! 7 = 0
     \<and> init_conv_matrix (replicate 16 0) COLOR_SPACE_BT601 COLOR_RANGE_FULL ! 11 = 0
     \<and> init_conv_matrix (replicate 16 0) COLOR_SPACE_BT601 COLOR_RANGE_FULL ! 15 = 1"
  using init_conv_matrix_bottom_row [of "replicate 16 0" COLOR_SPACE_BT601 COLOR_RANGE_FULL]
  by simp

text \<open>
  Claim C7. The exchange of the columns 1 and 2 of the matrix, which
  \<^verbatim>\<open>renderer_yuv_base_init\<close> does for the formats that store V before U, is an involution:
  done twice on a matrix of 16 floats, it gives the matrix back.
\<close>

theorem swap_uv_columns_involution:
  "length m = 16 \<Longrightarrow> swap_uv_columns (swap_uv_columns m) = m"
proof -
  assume "length m = 16"
  from list16[OF this] obtain a0 a1 a2 a3 a4 a5 a6 a7 a8 a9 a10 a11 a12 a13 a14 a15 where
    "m = [a0,a1,a2,a3,a4,a5,a6,a7,a8,a9,a10,a11,a12,a13,a14,a15]" by blast
  then show ?thesis by (simp add: swap_uv_columns_explicit)
qed

theorem swap_uv_columns_involution_witness:
  "length [0,1,2,3,4,5,6,7,8,9,10,11,12,13,14,15::real] = 16
   \<and> swap_uv_columns [0,1,2,3,4,5,6,7,8,9,10,11,12,13,14,15]
     = [0,1,2,3,8,9,10,11,4,5,6,7,12,13,14,15]
   \<and> swap_uv_columns (swap_uv_columns [0,1,2,3,4,5,6,7,8,9,10,11,12,13,14,15])
     = [0,1,2,3,4,5,6,7,8,9,10,11,12,13,14,15]"
  using swap_uv_columns_involution [of "[0,1,2,3,4,5,6,7,8,9,10,11,12,13,14,15]"]
  by (simp add: swap_uv_columns_explicit)

section \<open>Properties of the renderer\<close>

text \<open>
  Claim C8. For a projection mode that is neither equirectangular nor the standard
  cubemap layout, \<^verbatim>\<open>getViewpointMatrixes\<close> leaves the 4x4 identity in each of the
  projection, zoom and view matrices.
\<close>

theorem flat_projection_matrices_identity:
  "mode \<noteq> PROJECTION_MODE_EQUIRECTANGULAR \<Longrightarrow>
   mode \<noteq> PROJECTION_MODE_CUBEMAP_LAYOUT_STANDARD \<Longrightarrow>
     var_ProjectionMatrix (getViewpointMatrixes env renderer mode) = identity
     \<and> var_ZoomMatrix (getViewpointMatrixes env renderer mode) = identity
     \<and> var_ViewMatrix (getViewpointMatrixes env renderer mode) = identity
     \<and> identity = [1,0,0,0, 0,1,0,0, 0,0,1,0, 0,0,0,1]"
  by (simp add: getViewpointMatrixes_def identity_def)

theorem flat_projection_matrices_identity_witness:
  "PROJECTION_MODE_RECTANGULAR \<noteq> PROJECTION_MODE_EQUIRECTANGULAR
   \<and> PROJECTION_MODE_RECTANGULAR \<noteq> PROJECTION_MODE_CUBEMAP_LAYOUT_STANDARD
   \<and> var_ProjectionMatrix
       (getViewpointMatrixes example_env example_renderer PROJECTION_MODE_RECTANGULAR)
       = [1,0,0,0, 0,1,0,0, 0,0,1,0, 0,0,0,1]
   \<and> var_ZoomMatrix
       (getViewpointMatrixes example_env example_renderer PROJECTION_MODE_RECTANGULAR)
       = [1,0,0,0, 0,1,0,0, 0,0,1,0, 0,0,0,1]
   \<and> var_ViewMatrix
       (getViewpointMatrixes example_env example_renderer PROJECTION_MODE_RECTANGULAR)
       = [1,0,0,0, 0,1,0,0, 0,0,1,0, 0,0,0,1]"
  using flat_projection_matrices_identity
    [of PROJECTION_MODE_RECTANGULAR example_env example_renderer]
  by simp

lemma getViewpointMatrixes_idem:
  "getViewpointMatrixes env (getViewpointMatrixes env r m) m = getViewpointMatrixes env r m"
  by (simp add: getViewpointMatrixes_def)

lemma getViewpointMatrixes_fields:
  "vp (getViewpointMatrixes env r m) = vp r"
  "f_fovx (getViewpointMatrixes env r m) = f_fovx r"
  "fmt (getViewpointMatrixes env r m) = fmt r"
  by (simp_all add: getViewpointMatrixes_def)

lemma UpdateZ_fields:
  "vp (UpdateZ env r) = vp r" "f_fovx (UpdateZ env r) = f_fovx r" "fmt (UpdateZ env r) = fmt r"
  by (simp_all add: UpdateZ_def Let_def)

lemma UpdateFOVy_fields:
  "vp (UpdateFOVy r) = vp r" "f_fovx (UpdateFOVy r) = f_fovx r" "fmt (UpdateFOVy r) = fmt r"
  by (simp_all add: UpdateFOVy_def)

lemma SetViewpoint_status:
  "fst (vlc_gl_renderer_SetViewpoint env renderer p_vp) =
    (if fov p_vp < FIELD_OF_VIEW_DEGREES_MIN env \<or> FIELD_OF_VIEW_DEGREES_MAX env < fov p_vp
     then VLC_EBADVAR else VLC_SUCCESS)"
  by (auto simp add: vlc_gl_renderer_SetViewpoint_def Let_def)

lemma SetViewpoint_rejected:
  "fov p_vp < FIELD_OF_VIEW_DEGREES_MIN env \<or> FIELD_OF_VIEW_DEGREES_MAX env < fov p_vp \<Longrightarrow>
     vlc_gl_renderer_SetViewpoint env renderer p_vp = (VLC_EBADVAR, renderer)"
  by (auto simp add: vlc_gl_renderer_SetViewpoint_def)

lemma SetViewpoint_accepted:
  assumes "FIELD_OF_VIEW_DEGREES_MIN env \<le> fov p_vp" "fov p_vp \<le> FIELD_OF_VIEW_DEGREES_MAX env"
  shows "fst (vlc_gl_renderer_SetViewpoint env renderer p_vp) = VLC_SUCCESS"
    and "vp (snd (vlc_gl_renderer_SetViewpoint env renderer p_vp)) = vlc_viewpoint_reverse env p_vp"
    and "f_fovx (snd (vlc_gl_renderer_SetViewpoint env renderer p_vp)) =
           (if \<bar>fov p_vp * pi / 180 - f_fovx renderer\<bar> \<ge> 0.001
            then fov p_vp * pi / 180 else f_fovx renderer)"
    and "getViewpointMatrixes env (snd (vlc_gl_renderer_SetViewpoint env renderer p_vp))
           (projection_mode (fmt renderer)) = snd (vlc_gl_renderer_SetViewpoint env renderer p_vp)"
proof -
  have ok: "\<not> (fov p_vp > FIELD_OF_VIEW_DEGREES_MAX env \<or> fov p_vp < FIELD_OF_VIEW_DEGREES_MIN env)"
    using assms by simp
  show "fst (vlc_gl_renderer_SetViewpoint env renderer p_vp) = VLC_SUCCESS"
    unfolding vlc_gl_renderer_SetViewpoint_def using ok by (simp add: Let_def)
  show "vp (snd (vlc_gl_renderer_SetViewpoint env renderer p_vp)) = vlc_viewpoint_reverse env p_vp"
    unfolding vlc_gl_renderer_SetViewpoint_def using ok
    by (simp add: Let_def getViewpointMatrixes_fields UpdateZ_fields UpdateFOVy_fields)
  show "f_fovx (snd (vlc_gl_renderer_SetViewpoint env renderer p_vp)) =
           (if \<bar>fov p_vp * pi / 180 - f_fovx renderer\<bar> \<ge> 0.001
            then fov p_vp * pi / 180 else f_fovx renderer)"
    unfolding vlc_gl_renderer_SetViewpoint_def using ok
    by (simp add: Let_def getViewpointMatrixes_fields UpdateZ_fields UpdateFOVy_fields)
  show "getViewpointMatrixes env (snd (vlc_gl_renderer_SetViewpoint env renderer p_vp))
           (projection_mode (fmt renderer)) = snd (vlc_gl_renderer_SetViewpoint env renderer p_vp)"
    unfolding vlc_gl_renderer_SetViewpoint_def using ok
    by (simp add: Let_def getViewpointMatrixes_idem UpdateZ_fields UpdateFOVy_fields)
qed

lemma example_env_fov:
  "FIELD_OF_VIEW_DEGREES_MIN example_env = 20"
  "FIELD_OF_VIEW_DEGREES_MAX example_env = 150"
  "vlc_viewpoint_reverse example_env v =
     \<lparr>yaw = - yaw v, pitch = - pitch v, roll = - roll v, fov = fov v\<rparr>"
  by (simp_all add: example_env_def)

text \<open>
  Claim C1, as stated: \<^verbatim>\<open>vlc_gl_renderer_SetViewpoint\<close> rejects a field of view at the
  minimum or the maximum, and accepts only those strictly between. The code compares
  with \<^verbatim>\<open>>\<close> and \<^verbatim>\<open><\<close>, so a field of view equal to the maximum is accepted: with the
  bounds 20 and 150, the call with 150 degrees returns \<^verbatim>\<open>VLC_SUCCESS\<close>.
\<close>

theorem set_viewpoint_boundary_counterexample:
  "fov \<lparr>yaw = 0, pitch = 0, roll = 0, fov = 150\<rparr> = FIELD_OF_VIEW_DEGREES_MAX example_env
   \<and> fst (vlc_gl_renderer_SetViewpoint example_env example_renderer
            \<lparr>yaw = 0, pitch = 0, roll = 0, fov = 150\<rparr>) = VLC_SUCCESS"
  by (simp add: SetViewpoint_status example_env_def)

text \<open>
  Claim C1, amended. \<^verbatim>\<open>vlc_gl_renderer_SetViewpoint\<close> rejects exactly the fields of view
  strictly below the minimum or strictly above the maximum: it returns \<^verbatim>\<open>VLC_EBADVAR\<close> and
  leaves the renderer as it was. It accepts every field of view of the closed range, the
  two bounds included: it returns \<^verbatim>\<open>VLC_SUCCESS\<close>, stores the reversed viewpoint, takes the
  new horizontal field of view when it differs from the old one by 0.001 radian or more,
  and leaves the projection, zoom and view matrices computed from the new state.
\<close>

theorem set_viewpoint_closed_range:
  "(fov p_vp < FIELD_OF_VIEW_DEGREES_MIN env \<or> FIELD_OF_VIEW_DEGREES_MAX env < fov p_vp \<longrightarrow>
      vlc_gl_renderer_SetViewpoint env renderer p_vp = (VLC_EBADVAR, renderer))
   \<and> (FIELD_OF_VIEW_DEGREES_MIN env \<le> fov p_vp \<and> fov p_vp \<le> FIELD_OF_VIEW_DEGREES_MAX env \<longrightarrow>
        fst (vlc_gl_renderer_SetViewpoint env renderer p_vp) = VLC_SUCCESS
        \<and> vp (snd (vlc_gl_renderer_SetViewpoint env renderer p_vp))
            = vlc_viewpoint_reverse env p_vp
        \<and> f_fovx (snd (vlc_gl_renderer_SetViewpoint env renderer p_vp)) =
             (if \<bar>fov p_vp * pi / 180 - f_fovx renderer\<bar> \<ge> 0.001
              then fov p_vp * pi / 180 else f_fovx renderer)
        \<and> getViewpointMatrixes env (snd (vlc_gl_renderer_SetViewpoint env renderer p_vp))
             (projection_mode (fmt renderer))
           = snd (vlc_gl_renderer_SetViewpoint env renderer p_vp))"
  using SetViewpoint_rejected [of p_vp env renderer] SetViewpoint_accepted [of env p_vp renderer]
  by blast

theorem set_viewpoint_closed_range_witness:
  "vlc_gl_renderer_SetViewpoint example_env example_renderer
      \<lparr>yaw = 0, pitch = 0, roll = 0, fov = 151\<rparr> = (VLC_EBADVAR, example_renderer)
   \<and> fst (vlc_gl_renderer_SetViewpoint example_env example_renderer
            \<lparr>yaw = 1, pitch = 0, roll = 0, fov = 20\<rparr>) = VLC_SUCCESS
   \<and> vp (snd (vlc_gl_renderer_SetViewpoint example_env example_renderer
            \<lparr>yaw = 1, pitch = 0, roll = 0, fov = 20\<rparr>))
       = \<lparr>yaw = - 1, pitch = 0, roll = 0, fov = 20\<rparr>"
  using set_viewpoint_closed_range
      [of "\<lparr>yaw = 0, pitch = 0, roll = 0, fov = 151\<rparr>" example_env example_renderer]
    set_viewpoint_closed_range
      [of "\<lparr>yaw = 1, pitch = 0, roll = 0, fov = 20\<rparr>" example_env example_renderer]
  by (simp add: example_env_fov)

section \<open>Properties of the geometry builders\<close>

text \<open>
  Claim C4, as stated: for every padding in \<open>[0, 1/2)\<close> on each axis, every texture
  coordinate of the cube lies in \<open>[0, 1]\<close>. The columns of the atlas are one third wide, so
  a horizontal padding above one third leaves the unit interval: with \<open>padW = 2/5\<close> the
  first coordinate of the third vertex of the right face is \<open>1/3 - 2/5\<close>, below zero.
\<close>

theorem cube_uv_counterexample:
  "(0::real) \<le> 2 / 5 \<and> (2 / 5 :: real) < 1 / 2
   \<and> textureCoord (projr (BuildCube example_env (2 / 5) 0)) ! 28 < 0"
  by (simp add: BuildCube_def example_env_def memcpy_def cube_tex_def)

text \<open>
  Claim C4, amended. For every horizontal padding in \<open>[0, 1/3]\<close> and every vertical
  padding in \<open>[0, 1/2)\<close>, \<^verbatim>\<open>BuildCube\<close> either fails with \<^verbatim>\<open>VLC_ENOMEM\<close> or returns 24 vertices
  with 48 texture coordinates, each of them in \<open>[0, 1]\<close>.
\<close>

theorem cube_uv_in_unit_square:
  "0 \<le> padW \<Longrightarrow> padW \<le> 1 / 3 \<Longrightarrow> 0 \<le> padH \<Longrightarrow> padH < 1 / 2 \<Longrightarrow>
     (case BuildCube env padW padH of
        Inl e \<Rightarrow> e = VLC_ENOMEM
      | Inr g \<Rightarrow>
          nbVertices g = 24 \<and> length (textureCoord g) = 2 * nbVertices g
          \<and> (\<forall>x \<in> set (textureCoord g). 0 \<le> x \<and> x \<le> 1))"
  by (simp add: BuildCube_def memcpy_def cube_tex_def)

theorem cube_uv_in_unit_square_witness:
  "(0::real) \<le> 1 / 3 \<and> (0::real) \<le> 1 / 4 \<and> (1 / 4 :: real) < 1 / 2
   \<and> nbVertices (projr (BuildCube example_env (1 / 3) (1 / 4))) = 24
   \<and> length (textureCoord (projr (BuildCube example_env (1 / 3) (1 / 4)))) = 48
   \<and> 0 \<le> textureCoord (projr (BuildCube example_env (1 / 3) (1 / 4))) ! 28
   \<and> textureCoord (projr (BuildCube example_env (1 / 3) (1 / 4))) ! 28 \<le> 1
   \<and> 0 \<le> textureCoord (projr (BuildCube example_env (1 / 3) (1 / 4))) ! 1
   \<and> textureCoord (projr (BuildCube example_env (1 / 3) (1 / 4))) ! 1 \<le> 1"
proof -
  have "\<exists>g. BuildCube example_env (1 / 3) (1 / 4) = Inr g"
    by (simp add: BuildCube_def example_env_def)
  then obtain g where g: "BuildCube example_env (1 / 3) (1 / 4) = Inr g" by blast
  have a: "nbVertices g = 24 \<and> length (textureCoord g) = 48
      \<and> (\<forall>x \<in> set (textureCoord g). 0 \<le> x \<and> x \<le> 1)"
    using cube_uv_in_unit_square [of "1 / 3" "1 / 4" example_env]
    by (simp add: g)
  then have "textureCoord g ! 28 \<in> set (textureCoord g)"
    and "textureCoord g ! 1 \<in> set (textureCoord g)"
    by simp_all
  with a have "0 \<le> textureCoord g ! 28 \<and> textureCoord g ! 28 \<le> 1
      \<and> 0 \<le> textureCoord g ! 1 \<and> textureCoord g ! 1 \<le> 1"
    by blast
  with a show ?thesis
    by (simp add: g)
qed

section \<open>Properties of the preparation of a picture\<close>

lemma Prepare_same:
  "visible_region (format picture) = visible_region (last_source renderer) \<Longrightarrow>
     snd (vlc_gl_renderer_Prepare env renderer picture) = renderer"
  by (simp add: vlc_gl_renderer_Prepare_def visible_region_def Let_def)

lemma Prepare_differs:
  "visible_region (format picture) \<noteq> visible_region (last_source renderer) \<Longrightarrow>
     snd (vlc_gl_renderer_Prepare env renderer picture) =
       renderer\<lparr>var_TexCoordsMap := fold (\<lambda>j maps. tex_coords_map renderer (format picture) j maps)
                    [0..<tex_count (interop renderer)]
                    (replicate PICTURE_PLANE_MAX (replicate (3 * 3) 0)),
                last_source := (last_source renderer)\<lparr>
                      i_x_offset := i_x_offset (format picture),
                      i_y_offset := i_y_offset (format picture),
                      i_visible_width := i_visible_width (format picture),
                      i_visible_height := i_visible_height (format picture)\<rparr>\<rparr>"
  by (auto simp add: vlc_gl_renderer_Prepare_def visible_region_def Let_def)

lemma Prepare_region:
  "visible_region (last_source (snd (vlc_gl_renderer_Prepare env renderer picture)))
     = visible_region (format picture)"
  by (cases "visible_region (format picture) = visible_region (last_source renderer)")
     (simp_all add: Prepare_same Prepare_differs, simp add: visible_region_def)

text \<open>
  Claim C10. When the picture given to \<^verbatim>\<open>vlc_gl_renderer_Prepare\<close> has the visible region
  (offsets and visible size) that the renderer has cached, the renderer, and with it the
  matrices \<^verbatim>\<open>TexCoordsMap\<close>, is left as it was; the matrices are computed anew only when the
  region differs. After any call the cached region is the one of the picture, so a second
  picture with the same region as the one prepared before changes nothing.
\<close>

theorem prepare_recomputes_only_on_region_change:
  "(visible_region (format picture) = visible_region (last_source renderer) \<longrightarrow>
      snd (vlc_gl_renderer_Prepare env renderer picture) = renderer)
   \<and> (visible_region (format picture) \<noteq> visible_region (last_source renderer) \<longrightarrow>
      var_TexCoordsMap (snd (vlc_gl_renderer_Prepare env renderer picture)) =
        fold (\<lambda>j maps. tex_coords_map renderer (format picture) j maps)
          [0..<tex_count (interop renderer)]
          (replicate PICTURE_PLANE_MAX (replicate (3 * 3) 0)))
   \<and> visible_region (last_source (snd (vlc_gl_renderer_Prepare env renderer picture)))
      = visible_region (format picture)
   \<and> (visible_region (format picture') = visible_region (format picture) \<longrightarrow>
      snd (vlc_gl_renderer_Prepare env
             (snd (vlc_gl_renderer_Prepare env renderer picture)) picture')
      = snd (vlc_gl_renderer_Prepare env renderer picture))"
  using Prepare_same [of picture renderer env] Prepare_differs [of picture renderer env]
    Prepare_region [of env renderer picture]
    Prepare_same [of picture' "snd (vlc_gl_renderer_Prepare env renderer picture)" env]
  by simp

theorem prepare_recomputes_only_on_region_change_witness:
  "visible_region (format \<lparr>format = example_format\<rparr>)
     \<noteq> visible_region (last_source example_renderer)
   \<and> var_TexCoordsMap
       (snd (vlc_gl_renderer_Prepare example_env example_renderer \<lparr>format = example_format\<rparr>))
     = [[1, 0, 0, 0, 1, 0, 0, 0, 0], [1, 0, 0, 0, 1, 0, 0, 0, 0], [1, 0, 0, 0, 1, 0, 0, 0, 0],
        [0, 0, 0, 0, 0, 0, 0, 0, 0], [0, 0, 0, 0, 0, 0, 0, 0, 0]]
   \<and> snd (vlc_gl_renderer_Prepare example_env
            (snd (vlc_gl_renderer_Prepare example_env example_renderer
                    \<lparr>format = example_format\<rparr>))
            \<lparr>format = example_format\<lparr>i_chroma := ''NV12''\<rparr>\<rparr>)
     = snd (vlc_gl_renderer_Prepare example_env example_renderer \<lparr>format = example_format\<rparr>)"
proof -
  have r: "visible_region (format \<lparr>format = example_format\<rparr>)
     \<noteq> visible_region (last_source example_renderer)"
    by (simp add: visible_region_def example_format_def example_renderer_def zero_format_def)
  have m: "fold (\<lambda>j maps. tex_coords_map example_renderer (format \<lparr>format = example_format\<rparr>) j maps)
          [0..<tex_count (interop example_renderer)]
          (replicate PICTURE_PLANE_MAX (replicate (3 * 3) 0))
     = [[1, 0, 0, 0, 1, 0, 0, 0, 0], [1, 0, 0, 0, 1, 0, 0, 0, 0], [1, 0, 0, 0, 1, 0, 0, 0, 0],
        [0, 0, 0, 0, 0, 0, 0, 0, 0], [0, 0, 0, 0, 0, 0, 0, 0, 0]]"
    by (simp add: example_renderer_def example_format_def example_interop_def
          tex_coords_map_def PICTURE_PLANE_MAX_def upt_rec Let_def)
       (simp add: eval_nat_numeral)
  have s: "visible_region (format \<lparr>format = example_format\<lparr>i_chroma := ''NV12''\<rparr>\<rparr>)
     = visible_region (format \<lparr>format = example_format\<rparr>)"
    by (simp add: visible_region_def)
  show ?thesis
    using prepare_recomputes_only_on_region_change
      [of "\<lparr>format = example_format\<rparr>" example_renderer example_env
          "\<lparr>format = example_format\<lparr>i_chroma := ''NV12''\<rparr>\<rparr>"] r m s
    by simp
qed

section \<open>Properties of the fragment shader generator\<close>

lemma opengl_init_swizzle_unrecognized:
  "plane_count desc = 1 \<Longrightarrow> chroma \<noteq> VLC_CODEC_UYVY \<Longrightarrow> chroma \<noteq> VLC_CODEC_YUYV \<Longrightarrow>
   chroma \<noteq> VLC_CODEC_VYUY \<Longrightarrow> chroma \<noteq> VLC_CODEC_YVYU \<Longrightarrow>
   opengl_init_swizzle env i sw chroma desc =
     (if NDEBUG env then Inr (VLC_EGENERIC, sw) else Inl (ASSERTION_FAILED ''missing chroma''))"
  by (simp add: opengl_init_swizzle_def)

lemma renderer_yuv_base_init_fst:
  "fst (renderer_yuv_base_init r chroma desc sp) = VLC_SUCCESS"
  by (simp add: renderer_yuv_base_init_def Let_def)

lemma renderer_yuv_base_init_interop:
  "interop (snd (renderer_yuv_base_init r chroma desc sp)) = interop r"
  by (simp add: renderer_yuv_base_init_def Let_def)

lemma renderer_yuv_base_init_pair:
  "renderer_yuv_base_init r chroma desc sp
     = (VLC_SUCCESS, snd (renderer_yuv_base_init r chroma desc sp))"
  by (simp add: renderer_yuv_base_init_def Let_def)

lemma fragment_shader_yuv_block_unrecognized:
  assumes "plane_count desc = 1" "chroma \<noteq> VLC_CODEC_UYVY" "chroma \<noteq> VLC_CODEC_YUYV"
    "chroma \<noteq> VLC_CODEC_VYUY" "chroma \<noteq> VLC_CODEC_YVYU"
  shows "fragment_shader_yuv_block env r sw chroma desc sp =
     (if NDEBUG env then Inr (snd (renderer_yuv_base_init r chroma desc sp), None)
      else Inl (ASSERTION_FAILED ''missing chroma''))"
proof -
  obtain r' where eq: "renderer_yuv_base_init r chroma desc sp = (VLC_SUCCESS, r')"
    using renderer_yuv_base_init_pair by blast
  show ?thesis
    unfolding fragment_shader_yuv_block_def eq
    by (simp add: opengl_init_swizzle_unrecognized [OF assms])
qed

text \<open>
  Claim C9. For a chroma code of the YUV family (so not the XYZ code, which has its own
  shader) whose description has one plane and which is none of the four packed codes that
  \<^verbatim>\<open>opengl_init_swizzle\<close> knows, \<^verbatim>\<open>opengl_fragment_shader_init\<close> produces no shader text,
  whatever the renderer, the texture target and the colour space: the assertion
  \<^verbatim>\<open>missing chroma\<close> fails, and when assertions are compiled out the function returns
  \<^verbatim>\<open>NULL\<close>.
\<close>

theorem unrecognized_packed_yuv_fails:
  assumes "vlc_fourcc_IsYUV env chroma"
    and "vlc_fourcc_GetChromaDescription env chroma = Some desc"
    and "plane_count desc = 1"
    and "chroma \<noteq> VLC_CODEC_UYVY" "chroma \<noteq> VLC_CODEC_YUYV"
    and "chroma \<noteq> VLC_CODEC_VYUY" "chroma \<noteq> VLC_CODEC_YVYU"
    and "chroma \<noteq> VLC_CODEC_XYZ12"
  shows "opengl_fragment_shader_init env renderer target chroma yuv_space =
     (if NDEBUG env then Inr (snd (renderer_yuv_base_init renderer chroma desc yuv_space), None)
      else Inl (ASSERTION_FAILED ''missing chroma''))"
  using assms
  by (simp add: opengl_fragment_shader_init_def Let_def fragment_shader_yuv_block_unrecognized)

theorem unrecognized_packed_yuv_fails_witness:
  "vlc_fourcc_IsYUV example_env ''GREY''
   \<and> vlc_fourcc_GetChromaDescription example_env ''GREY''
       = Some \<lparr>plane_count = 1, pixel_size = 1, pixel_bits = 8\<rparr>
   \<and> opengl_fragment_shader_init example_env example_renderer GL_TEXTURE_2D ''GREY''
        COLOR_SPACE_BT709 = Inl (ASSERTION_FAILED ''missing chroma'')
   \<and> map_sum id snd
        (opengl_fragment_shader_init (example_env\<lparr>NDEBUG := True\<rparr>) example_renderer
           GL_TEXTURE_2D ''GREY'' COLOR_SPACE_BT709) = Inr None"
  using unrecognized_packed_yuv_fails [of example_env "''GREY''"
      "\<lparr>plane_count = 1, pixel_size = 1, pixel_bits = 8\<rparr>" example_renderer GL_TEXTURE_2D
      COLOR_SPACE_BT709]
    unrecognized_packed_yuv_fails [of "example_env\<lparr>NDEBUG := True\<rparr>" "''GREY''"
      "\<lparr>plane_count = 1, pixel_size = 1, pixel_bits = 8\<rparr>" example_renderer GL_TEXTURE_2D
      COLOR_SPACE_BT709]
  by (simp add: example_env_def example_chroma_description_def vlc_codec_defs)

subsection \<open>The colour range is not read\<close>

lemma set_color_range_fields:
  "conv_matrix (set_color_range c r) = conv_matrix r"
  "tex_target (interop (set_color_range c r)) = tex_target (interop r)"
  "tex_count (interop (set_color_range c r)) = tex_count (interop r)"
  "api_extensions (interop (set_color_range c r)) = api_extensions (interop r)"
  "i_chroma (sw_fmt (interop (set_color_range c r))) = i_chroma (sw_fmt (interop r))"
  "space (sw_fmt (interop (set_color_range c r))) = space (sw_fmt (interop r))"
  "glsl_version (set_color_range c r) = glsl_version r"
  "glsl_precision_header (set_color_range c r) = glsl_precision_header r"
  by (simp_all add: set_color_range_def)

lemma set_color_range_callbacks:
  "set_color_range c (r\<lparr>pf_fetch_locations := a, pf_prepare_shader := b\<rparr>)
     = (set_color_range c r)\<lparr>pf_fetch_locations := a, pf_prepare_shader := b\<rparr>"
  by (simp add: set_color_range_def)

lemma renderer_yuv_base_init_color_range:
  "renderer_yuv_base_init (set_color_range c r) chroma desc sp
     = (VLC_SUCCESS, set_color_range c (snd (renderer_yuv_base_init r chroma desc sp)))"
  by (simp add: renderer_yuv_base_init_def Let_def set_color_range_def)

lemma opengl_init_swizzle_color_range:
  "opengl_init_swizzle env (interop (set_color_range c r)) sw chroma desc
     = opengl_init_swizzle env (interop r) sw chroma desc"
  by (simp add: opengl_init_swizzle_def set_color_range_fields)

lemma yuv_texture_loop_color_range:
  "yuv_texture_loop env (interop (set_color_range c r)) t l sw st
     = yuv_texture_loop env (interop r) t l sw st"
  by (simp only: yuv_texture_loop_def set_color_range_fields)

lemma fragment_shader_text_color_range:
  "fragment_shader_text env (interop (set_color_range c r)) t y sp sw sa l
     = fragment_shader_text env (interop r) t y sp sw sa l"
  by (simp only: fragment_shader_text_def set_color_range_fields yuv_texture_loop_color_range)

lemma fragment_shader_yuv_block_color_range:
  "fragment_shader_yuv_block env (set_color_range c r) sw chroma desc sp
     = map_sum id (map_prod (set_color_range c) id)
         (fragment_shader_yuv_block env r sw chroma desc sp)"
proof -
  obtain r' where eq: "renderer_yuv_base_init r chroma desc sp = (VLC_SUCCESS, r')"
    using renderer_yuv_base_init_pair by blast
  have eq': "renderer_yuv_base_init (set_color_range c r) chroma desc sp
     = (VLC_SUCCESS, set_color_range c r')"
    using renderer_yuv_base_init_color_range [of c r chroma desc sp] eq by simp
  show ?thesis
    unfolding fragment_shader_yuv_block_def eq eq'
    by (simp add: opengl_init_swizzle_color_range split: sum.splits prod.splits)
qed

lemma opengl_fragment_shader_init_color_range:
  "opengl_fragment_shader_init env (set_color_range c r) t chroma sp
     = map_sum id (map_prod (set_color_range c) id)
         (opengl_fragment_shader_init env r t chroma sp)"
  unfolding opengl_fragment_shader_init_def Let_def
  by (simp add: fragment_shader_yuv_block_color_range fragment_shader_text_color_range
        xyz12_shader_init_def set_color_range_callbacks
      split: option.splits sum.splits prod.splits)

lemma BuildFragmentShader_color_range:
  "BuildFragmentShader env (set_color_range c r)
     = map_sum id (map_prod (set_color_range c) id) (BuildFragmentShader env r)"
  unfolding BuildFragmentShader_def Let_def
  by (simp add: opengl_fragment_shader_init_color_range set_color_range_fields
      split: option.splits sum.splits prod.splits)


lemma BuildFragmentShader_matrix_color_range:
  "map_sum id (map_prod conv_matrix id) (BuildFragmentShader env (set_color_range c renderer))
     = map_sum id (map_prod conv_matrix id) (BuildFragmentShader env renderer)"
  unfolding BuildFragmentShader_color_range
  by (cases "BuildFragmentShader env renderer") (auto simp add: set_color_range_fields)

lemma fragment_shader_yuv_block_renderer:
  "fragment_shader_yuv_block env r sw chroma desc sp = Inr (r1, x) \<Longrightarrow>
     r1 = snd (renderer_yuv_base_init r chroma desc sp)"
proof -
  assume a: "fragment_shader_yuv_block env r sw chroma desc sp = Inr (r1, x)"
  obtain r' where eq: "renderer_yuv_base_init r chroma desc sp = (VLC_SUCCESS, r')"
    using renderer_yuv_base_init_pair by blast
  from a show ?thesis
    unfolding fragment_shader_yuv_block_def eq
    by (auto split: sum.splits prod.splits if_splits)
qed

lemma opengl_fragment_shader_init_yuv_matrix:
  assumes "vlc_fourcc_IsYUV env chroma"
    and "vlc_fourcc_GetChromaDescription env chroma = Some desc"
    and "chroma \<noteq> VLC_CODEC_XYZ12"
    and "opengl_fragment_shader_init env renderer target chroma yuv_space = Inr (renderer', shader)"
  shows "conv_matrix renderer'
     = conv_matrix (snd (renderer_yuv_base_init renderer chroma desc yuv_space))"
proof (cases "fragment_shader_yuv_block env renderer (replicate PICTURE_PLANE_MAX None) chroma desc yuv_space")
  case (Inl a)
  with assms show ?thesis
    by (simp add: opengl_fragment_shader_init_def Let_def)
next
  case (Inr p)
  obtain r1 x where p: "p = (r1, x)" by (cases p)
  have r1: "r1 = snd (renderer_yuv_base_init renderer chroma desc yuv_space)"
    using fragment_shader_yuv_block_renderer Inr p by blast
  from assms(4) show ?thesis
    unfolding opengl_fragment_shader_init_def Let_def
    using assms(1-3) Inr p r1
    by (auto split: option.splits sum.splits prod.splits if_splits)
qed

lemma renderer_yuv_base_init_matrix:
  "conv_matrix (snd (renderer_yuv_base_init renderer chroma desc yuv_space)) =
     (if chroma = VLC_CODEC_YV12 \<or> chroma = VLC_CODEC_YV9 \<or> chroma = VLC_CODEC_NV21
      then swap_uv_columns else id)
       ((if pixel_size desc = 2 \<and> chroma \<noteq> VLC_CODEC_P010 \<and> chroma \<noteq> VLC_CODEC_P016
         then scale_conv_matrix (yuv_range_correction (pixel_bits desc)) else id)
          (init_conv_matrix (conv_matrix renderer) yuv_space COLOR_RANGE_LIMITED))"
  by (simp add: renderer_yuv_base_init_def Let_def)

text \<open>
  Claim C3. The colour range of the format descriptors has no influence on the conversion
  matrix. First, \<^verbatim>\<open>BuildFragmentShader\<close> on a renderer whose descriptors carry another
  colour range has the same outcome, with the same matrix and the same shader text.
  Second, for a chroma of the YUV family, whenever \<^verbatim>\<open>opengl_fragment_shader_init\<close> returns,
  the matrix of the renderer is the one that \<^verbatim>\<open>init_conv_matrix\<close> computes for the limited
  range, after the range correction of the two-byte formats and the exchange of the
  chroma columns where they apply.
\<close>

theorem conversion_matrix_ignores_color_range:
  "map_sum id (map_prod conv_matrix id) (BuildFragmentShader env (set_color_range c renderer))
     = map_sum id (map_prod conv_matrix id) (BuildFragmentShader env renderer)
   \<and> (vlc_fourcc_IsYUV env chroma
        \<and> vlc_fourcc_GetChromaDescription env chroma = Some desc
        \<and> chroma \<noteq> VLC_CODEC_XYZ12
        \<and> opengl_fragment_shader_init env renderer target chroma yuv_space
            = Inr (renderer', shader) \<longrightarrow>
      conv_matrix renderer' =
        (if chroma = VLC_CODEC_YV12 \<or> chroma = VLC_CODEC_YV9 \<or> chroma = VLC_CODEC_NV21
         then swap_uv_columns else id)
          ((if pixel_size desc = 2 \<and> chroma \<noteq> VLC_CODEC_P010 \<and> chroma \<noteq> VLC_CODEC_P016
            then scale_conv_matrix (yuv_range_correction (pixel_bits desc)) else id)
             (init_conv_matrix (conv_matrix renderer) yuv_space COLOR_RANGE_LIMITED)))"
  using BuildFragmentShader_matrix_color_range [of env c renderer]
    opengl_fragment_shader_init_yuv_matrix [of env chroma desc renderer target yuv_space renderer' shader]
    renderer_yuv_base_init_matrix [of renderer chroma desc yuv_space]
  by simp

lemma opengl_init_swizzle_planar3:
  "plane_count desc = 3 \<Longrightarrow>
     opengl_init_swizzle env i (replicate PICTURE_PLANE_MAX None) chroma desc
       = Inr (VLC_SUCCESS, [Some ''r'', Some ''r'', Some ''r'', None, None])"
  by (simp add: opengl_init_swizzle_def PICTURE_PLANE_MAX_def eval_nat_numeral)

lemma swizzle_loop_single:
  "k < PICTURE_PLANE_MAX \<Longrightarrow>
     swizzle_loop env [c] (ms, k) =
       Inr (ms @ '' pixel['' @ string_of_nat k @ ''] = texel.'' @ [c] @ '';'' @ nl, Suc k)"
  by (simp add: swizzle_loop_def Let_def)

lemma yuv_texture_loop_planar3:
  "tex_count i = 3 \<Longrightarrow>
     \<exists>ms'. yuv_texture_loop env i t l [Some ''r'', Some ''r'', Some ''r'', None, None] (ms, 0)
       = Inr (ms', 3)"
  by (simp add: yuv_texture_loop_def upt_rec Let_def swizzle_loop_single PICTURE_PLANE_MAX_def)


lemma fragment_shader_text_planar3:
  assumes "tex_count i = 3"
  shows "\<exists>s. fragment_shader_text env i t True sp
           [Some ''r'', Some ''r'', Some ''r'', None, None] sa l = Inr s"
proof -
  have *: "\<And>ms. \<exists>ms'. yuv_texture_loop env i t l
      [Some ''r'', Some ''r'', Some ''r'', None, None] (ms, 0) = Inr (ms', 3)"
    using yuv_texture_loop_planar3 [OF assms] by blast
  show ?thesis
    unfolding fragment_shader_text_def Let_def if_True
    apply (rule exE [OF *])
    apply (erule ssubst)
    apply simp
    done
qed

lemma opengl_fragment_shader_init_planar3:
  assumes "vlc_fourcc_IsYUV env chroma"
    and "vlc_fourcc_GetChromaDescription env chroma = Some desc"
    and "chroma \<noteq> VLC_CODEC_XYZ12"
    and "plane_count desc = 3" and "tex_count (interop renderer) = 3"
    and "target = GL_TEXTURE_2D"
    and "vlc_memstream_open_ok env" and "vlc_memstream_close_ok env"
  shows "\<exists>s. opengl_fragment_shader_init env renderer target chroma yuv_space =
           Inr ((snd (renderer_yuv_base_init renderer chroma desc yuv_space))
                  \<lparr>pf_fetch_locations := CALLBACKS_BASE, pf_prepare_shader := CALLBACKS_BASE\<rparr>,
                Some s)"
proof -
  let ?r = "snd (renderer_yuv_base_init renderer chroma desc yuv_space)"
  have i: "interop ?r = interop renderer"
    by (simp add: renderer_yuv_base_init_def Let_def)
  have b: "fragment_shader_yuv_block env renderer (replicate PICTURE_PLANE_MAX None) chroma desc
             yuv_space = Inr (?r, Some [Some ''r'', Some ''r'', Some ''r'', None, None])"
    unfolding fragment_shader_yuv_block_def
    by (subst renderer_yuv_base_init_pair) (simp add: opengl_init_swizzle_planar3 [OF assms(4)])
  obtain s where s: "fragment_shader_text env (interop renderer) target True yuv_space
           [Some ''r'', Some ''r'', Some ''r'', None, None] ''sampler2D'' ''texture2D'' = Inr s"
    using fragment_shader_text_planar3 [OF assms(5)] by blast
  show ?thesis
    unfolding opengl_fragment_shader_init_def Let_def
    using assms(1-3,6-8) b s
    by (simp add: sampler_lookup_def gl_target_defs)
qed


lemma example_limited_bt709_0:
  "init_conv_matrix (replicate 16 0) COLOR_SPACE_BT709 COLOR_RANGE_LIMITED ! 0 = 85 / 73"
  by (simp add: init_conv_matrix_def Let_def upt_rec conv_matrix_sum_def MATRIX_BT709_def
        MATRIX_YUV_TO_RGB_def MATRIX_YUV_TO_RGB'_def MATRIX_COLOR_RANGE_LIMITED_def)

lemma example_full_bt709_0:
  "init_conv_matrix (replicate 16 0) COLOR_SPACE_BT709 COLOR_RANGE_FULL ! 0 = 1"
  by (simp add: init_conv_matrix_def Let_def upt_rec conv_matrix_sum_def MATRIX_BT709_def
        MATRIX_YUV_TO_RGB_def MATRIX_YUV_TO_RGB'_def MATRIX_COLOR_RANGE_FULL_def)

theorem conversion_matrix_ignores_color_range_witness:
  "color_range (sw_fmt (interop example_renderer)) = COLOR_RANGE_FULL
   \<and> conv_matrix (fst (projr (opengl_fragment_shader_init example_env example_renderer
         GL_TEXTURE_2D ''I420'' COLOR_SPACE_BT709)))
       = init_conv_matrix (replicate 16 0) COLOR_SPACE_BT709 COLOR_RANGE_LIMITED
   \<and> conv_matrix (fst (projr (opengl_fragment_shader_init example_env example_renderer
         GL_TEXTURE_2D ''I420'' COLOR_SPACE_BT709))) ! 0 = 85 / 73
   \<and> init_conv_matrix (replicate 16 0) COLOR_SPACE_BT709 COLOR_RANGE_FULL ! 0 = 1
   \<and> map_sum id (map_prod conv_matrix id)
        (BuildFragmentShader example_env (set_color_range COLOR_RANGE_LIMITED example_renderer))
       = map_sum id (map_prod conv_matrix id) (BuildFragmentShader example_env example_renderer)"
proof -
  let ?d = "\<lparr>plane_count = 3, pixel_size = 1, pixel_bits = 8\<rparr>"
  have y: "vlc_fourcc_IsYUV example_env ''I420''"
    and d: "vlc_fourcc_GetChromaDescription example_env ''I420'' = Some ?d"
    and x: "''I420'' \<noteq> VLC_CODEC_XYZ12"
    and o: "vlc_memstream_open_ok example_env" "vlc_memstream_close_ok example_env"
    by (simp_all add: example_env_def example_chroma_description_def vlc_codec_defs)
  have t: "tex_count (interop example_renderer) = 3"
    and c: "conv_matrix example_renderer = replicate 16 0"
    and f: "color_range (sw_fmt (interop example_renderer)) = COLOR_RANGE_FULL"
    by (simp_all add: example_renderer_def example_interop_def example_format_def)
  obtain s where s: "opengl_fragment_shader_init example_env example_renderer GL_TEXTURE_2D
      ''I420'' COLOR_SPACE_BT709 =
        Inr ((snd (renderer_yuv_base_init example_renderer ''I420'' ?d COLOR_SPACE_BT709))
               \<lparr>pf_fetch_locations := CALLBACKS_BASE, pf_prepare_shader := CALLBACKS_BASE\<rparr>,
             Some s)"
    using opengl_fragment_shader_init_planar3 [OF y d x _ t refl o] by auto
  show ?thesis
    using conversion_matrix_ignores_color_range [of example_env COLOR_RANGE_LIMITED
        example_renderer "''I420''" ?d GL_TEXTURE_2D COLOR_SPACE_BT709
        "(snd (renderer_yuv_base_init example_renderer ''I420'' ?d COLOR_SPACE_BT709))
               \<lparr>pf_fetch_locations := CALLBACKS_BASE, pf_prepare_shader := CALLBACKS_BASE\<rparr>"
        "Some s"] y d x s f
    by (simp add: vlc_codec_defs c example_limited_bt709_0 example_full_bt709_0)
qed

subsection \<open>The range correction of two-byte samples\<close>

lemma init_conv_matrix_bottom:
  "length m = 16 \<Longrightarrow>
     init_conv_matrix m cs cr ! 3 = 0 \<and> init_conv_matrix m cs cr ! 7 = 0
     \<and> init_conv_matrix m cs cr ! 11 = 0 \<and> init_conv_matrix m cs cr ! 15 = 1"
  by (simp add: init_conv_matrix_def Let_def upt_rec)

lemma scale_conv_matrix_explicit:
  "scale_conv_matrix c [a0,a1,a2,a3,a4,a5,a6,a7,a8,a9,a10,a11,a12,a13,a14,a15]
   = [a0 * c, a1 * c, a2 * c, a3 * c, a4 * c, a5 * c, a6 * c, a7 * c,
      a8 * c, a9 * c, a10 * c, a11 * c, a12, a13, a14, a15]"
  by (simp add: scale_conv_matrix_def upt_rec)

lemma scaled_columns_explicit:
  "map (\<lambda>i. if i < 12 then [a0,a1,a2,a3,a4,a5,a6,a7,a8,a9,a10,a11,a12,a13,a14,a15] ! i * c
             else [a0,a1,a2,a3,a4,a5,a6,a7,a8,a9,a10,a11,a12,a13,a14,a15] ! i) [0..<16]
   = [a0 * c, a1 * c, a2 * c, a3 * c, a4 * c, a5 * c, a6 * c, a7 * c,
      a8 * c, a9 * c, a10 * c, a11 * c, a12, a13, a14, (a15::real)]"
  by (simp add: upt_rec)

lemma yuv_range_correction_eq:
  "yuv_range_correction bits = 65535 / (2 ^ bits - 1)"
  by (simp add: yuv_range_correction_def)

text \<open>
  Claim C2, amended. For a format stored on two bytes per sample with the samples on the
  low bits (any chroma but P010 and P016, with 1 to 30 bits per sample),
  \<^verbatim>\<open>renderer_yuv_base_init\<close> multiplies the first three columns of the limited-range
  matrix, the twelve leading floats of the column-major array, by
  \<open>(2^16 - 1) / (2^bits - 1)\<close> and leaves the fourth column as it is, before the exchange
  of the chroma columns where it applies; the fourth row stays \<open>[0, 0, 0, 1]\<close>.
\<close>

theorem range_correction_scales_columns:
  assumes "length (conv_matrix renderer) = 16"
    and "pixel_size desc = 2"
    and "chroma \<noteq> VLC_CODEC_P010" "chroma \<noteq> VLC_CODEC_P016"
    and "0 < pixel_bits desc" "pixel_bits desc < 31"
  shows "conv_matrix (snd (renderer_yuv_base_init renderer chroma desc yuv_space)) =
      (if chroma = VLC_CODEC_YV12 \<or> chroma = VLC_CODEC_YV9 \<or> chroma = VLC_CODEC_NV21
       then swap_uv_columns else id)
        (map (\<lambda>i. if i < 12
                   then init_conv_matrix (conv_matrix renderer) yuv_space COLOR_RANGE_LIMITED ! i
                        * (65535 / (2 ^ pixel_bits desc - 1))
                   else init_conv_matrix (conv_matrix renderer) yuv_space COLOR_RANGE_LIMITED ! i)
           [0..<16])
    \<and> conv_matrix (snd (renderer_yuv_base_init renderer chroma desc yuv_space)) ! 3 = 0
    \<and> conv_matrix (snd (renderer_yuv_base_init renderer chroma desc yuv_space)) ! 7 = 0
    \<and> conv_matrix (snd (renderer_yuv_base_init renderer chroma desc yuv_space)) ! 11 = 0
    \<and> conv_matrix (snd (renderer_yuv_base_init renderer chroma desc yuv_space)) ! 15 = 1"
proof -
  let ?M0 = "init_conv_matrix (conv_matrix renderer) yuv_space COLOR_RANGE_LIMITED"
  have len: "length ?M0 = 16"
    using assms(1) by (simp add: length_init_conv_matrix)
  from list16 [OF len] obtain a0 a1 a2 a3 a4 a5 a6 a7 a8 a9 a10 a11 a12 a13 a14 a15 where
    m: "?M0 = [a0,a1,a2,a3,a4,a5,a6,a7,a8,a9,a10,a11,a12,a13,a14,a15]" by blast
  have bottom: "a3 = 0" "a7 = 0" "a11 = 0" "a15 = 1"
    using init_conv_matrix_bottom [OF assms(1), of yuv_space COLOR_RANGE_LIMITED] m by simp_all
  have sc: "map (\<lambda>i. if i < 12 then ?M0 ! i * (65535 / (2 ^ pixel_bits desc - 1)) else ?M0 ! i)
              [0..<16]
     = [a0 * (65535 / (2 ^ pixel_bits desc - 1)), a1 * (65535 / (2 ^ pixel_bits desc - 1)),
        a2 * (65535 / (2 ^ pixel_bits desc - 1)), a3 * (65535 / (2 ^ pixel_bits desc - 1)),
        a4 * (65535 / (2 ^ pixel_bits desc - 1)), a5 * (65535 / (2 ^ pixel_bits desc - 1)),
        a6 * (65535 / (2 ^ pixel_bits desc - 1)), a7 * (65535 / (2 ^ pixel_bits desc - 1)),
        a8 * (65535 / (2 ^ pixel_bits desc - 1)), a9 * (65535 / (2 ^ pixel_bits desc - 1)),
        a10 * (65535 / (2 ^ pixel_bits desc - 1)), a11 * (65535 / (2 ^ pixel_bits desc - 1)),
        a12, a13, a14, a15]"
    by (simp only: m scaled_columns_explicit)
  have r: "conv_matrix (snd (renderer_yuv_base_init renderer chroma desc yuv_space)) =
      (if chroma = VLC_CODEC_YV12 \<or> chroma = VLC_CODEC_YV9 \<or> chroma = VLC_CODEC_NV21
       then swap_uv_columns else id)
        (scale_conv_matrix (65535 / (2 ^ pixel_bits desc - 1)) ?M0)"
    unfolding renderer_yuv_base_init_def Let_def
    using assms(2-4) by (simp add: yuv_range_correction_eq)
  show ?thesis
    unfolding r sc
    unfolding m scale_conv_matrix_explicit
    using bottom
    by (simp add: swap_uv_columns_explicit)
qed

lemma example_limited_bt709_12:
  "init_conv_matrix (replicate 16 0) COLOR_SPACE_BT709 COLOR_RANGE_LIMITED ! 12
     = - (932203 / 958125)"
  by (simp add: init_conv_matrix_def Let_def upt_rec conv_matrix_sum_def MATRIX_BT709_def
        MATRIX_YUV_TO_RGB_def MATRIX_YUV_TO_RGB'_def MATRIX_COLOR_RANGE_LIMITED_def)

text \<open>
  Claim C2, as stated: the range correction multiplies the first three rows of the
  matrix. The loop of \<^verbatim>\<open>renderer_yuv_base_init\<close> multiplies the first twelve floats of the
  column-major array, which are the first three columns; the fourth column, where the
  rows 0 to 2 hold the offsets, is not touched. For a 10-bit format in three planes and
  BT.709, the entry of row 0 and column 3 (index 12) is not the entry of the limited-range
  matrix times \<open>(2^16 - 1) / (2^10 - 1)\<close>.
\<close>

theorem range_correction_rows_counterexample:
  "pixel_size \<lparr>plane_count = 3, pixel_size = 2, pixel_bits = 10\<rparr> = 2
   \<and> ''I0AL'' \<noteq> VLC_CODEC_P010 \<and> ''I0AL'' \<noteq> VLC_CODEC_P016
   \<and> conv_matrix (snd (renderer_yuv_base_init example_renderer ''I0AL''
        \<lparr>plane_count = 3, pixel_size = 2, pixel_bits = 10\<rparr> COLOR_SPACE_BT709)) ! 12
     \<noteq> init_conv_matrix (conv_matrix example_renderer) COLOR_SPACE_BT709 COLOR_RANGE_LIMITED ! 12
        * ((2 ^ 16 - 1) / (2 ^ 10 - 1))"
proof -
  have c: "conv_matrix example_renderer = replicate 16 0"
    by (simp add: example_renderer_def)
  have l: "length (init_conv_matrix (replicate 16 0) COLOR_SPACE_BT709 COLOR_RANGE_LIMITED) = 16"
    by (simp add: length_init_conv_matrix)
  from list16 [OF l] obtain a0 a1 a2 a3 a4 a5 a6 a7 a8 a9 a10 a11 a12 a13 a14 a15 where
    m: "init_conv_matrix (replicate 16 0) COLOR_SPACE_BT709 COLOR_RANGE_LIMITED
          = [a0,a1,a2,a3,a4,a5,a6,a7,a8,a9,a10,a11,a12,a13,a14,a15]" by blast
  have a12: "a12 = - (932203 / 958125)"
    using example_limited_bt709_12 m by simp
  show ?thesis
    unfolding renderer_yuv_base_init_def Let_def c
    by (simp add: vlc_codec_defs m scale_conv_matrix_explicit a12)
qed

theorem range_correction_scales_columns_witness:
  "length (conv_matrix example_renderer) = 16
   \<and> conv_matrix (snd (renderer_yuv_base_init example_renderer ''I0AL''
        \<lparr>plane_count = 3, pixel_size = 2, pixel_bits = 10\<rparr> COLOR_SPACE_BT709)) ! 0
       = 85 / 73 * (65535 / 1023)
   \<and> conv_matrix (snd (renderer_yuv_base_init example_renderer ''I0AL''
        \<lparr>plane_count = 3, pixel_size = 2, pixel_bits = 10\<rparr> COLOR_SPACE_BT709)) ! 12
       = - (932203 / 958125)
   \<and> conv_matrix (snd (renderer_yuv_base_init example_renderer ''I0AL''
        \<lparr>plane_count = 3, pixel_size = 2, pixel_bits = 10\<rparr> COLOR_SPACE_BT709)) ! 15 = 1"
proof -
  have c: "conv_matrix example_renderer = replicate 16 0"
    by (simp add: example_renderer_def)
  let ?R = "conv_matrix (snd (renderer_yuv_base_init example_renderer ''I0AL''
        \<lparr>plane_count = 3, pixel_size = 2, pixel_bits = 10\<rparr> COLOR_SPACE_BT709))"
  let ?N = "init_conv_matrix (replicate 16 0) COLOR_SPACE_BT709 COLOR_RANGE_LIMITED"
  have E: "?R = map (\<lambda>i. if i < 12 then ?N ! i * (65535 / 1023) else ?N ! i) [0..<16]"
    and b: "?R ! 15 = 1"
    using range_correction_scales_columns [of example_renderer
        "\<lparr>plane_count = 3, pixel_size = 2, pixel_bits = 10\<rparr>" "''I0AL''" COLOR_SPACE_BT709]
    unfolding c by (simp_all add: vlc_codec_defs init_conv_matrix_bottom)
  have "?R ! 0 = 85 / 73 * (65535 / 1023)"
    by (simp only: E) (simp add: nth_map_upt example_limited_bt709_0)
  moreover have "?R ! 12 = - (932203 / 958125)"
    by (simp only: E) (simp add: nth_map_upt example_limited_bt709_12)
  ultimately show ?thesis
    using b c by simp
qed

subsection \<open>The sphere\<close>

lemma fold_invariant:
  "P a \<Longrightarrow> (\<And>x b. P b \<Longrightarrow> P (f x b)) \<Longrightarrow> P (fold f xs a)"
  by (induction xs arbitrary: a) auto

lemma unit_sphere_point:
  "(cos p * sin t)\<^sup>2 + (cos t)\<^sup>2 + (sin p * sin t)\<^sup>2 = (1::real)"
proof -
  have "(cos p * sin t)\<^sup>2 + (sin p * sin t)\<^sup>2 = ((cos p)\<^sup>2 + (sin p)\<^sup>2) * (sin t)\<^sup>2"
    by (simp only: power_mult_distrib distrib_right)
  also have "\<dots> = (sin t)\<^sup>2"
    by (simp only: sin_cos_squared_add2 mult_1_left)
  finally have a: "(cos p * sin t)\<^sup>2 + (sin p * sin t)\<^sup>2 = (sin t)\<^sup>2" .
  have "(cos p * sin t)\<^sup>2 + (cos t)\<^sup>2 + (sin p * sin t)\<^sup>2
      = ((cos p * sin t)\<^sup>2 + (sin p * sin t)\<^sup>2) + (cos t)\<^sup>2"
    by (simp only: add.assoc add.commute)
  also have "\<dots> = (sin t)\<^sup>2 + (cos t)\<^sup>2"
    by (simp only: a)
  also have "\<dots> = 1"
    by (rule sin_cos_squared_add)
  finally show ?thesis .
qed

lemma sphere_vertex_length:
  "length (fst (sphere_vertex nLat nLon lat lon a)) = length (fst a)"
  "length (snd (sphere_vertex nLat nLon lat lon a)) = length (snd a)"
  by (cases a; simp add: sphere_vertex_def Let_def)+

lemma sphere_vertex_written:
  "(lat * (nLon + 1) + lon) * 3 + 2 < length (fst a) \<Longrightarrow>
     vertex_norm2 (fst (sphere_vertex nLat nLon lat lon a)) (lat * (nLon + 1) + lon) = 1"
  by (cases a) (simp add: sphere_vertex_def Let_def vertex_norm2_def SPHERE_RADIUS_def
        unit_sphere_point)

lemma sphere_vertex_frame:
  assumes "j \<noteq> lat * (nLon + 1) + lon"
  shows "vertex_norm2 (fst (sphere_vertex nLat nLon lat lon a)) j = vertex_norm2 (fst a) j"
proof -
  let ?k = "lat * (nLon + 1) + lon"
  have ne: "j * 3 \<noteq> ?k * 3" "j * 3 \<noteq> ?k * 3 + 1" "j * 3 \<noteq> ?k * 3 + 2"
    "j * 3 + 1 \<noteq> ?k * 3" "j * 3 + 1 \<noteq> ?k * 3 + 1" "j * 3 + 1 \<noteq> ?k * 3 + 2"
    "j * 3 + 2 \<noteq> ?k * 3" "j * 3 + 2 \<noteq> ?k * 3 + 1" "j * 3 + 2 \<noteq> ?k * 3 + 2"
    using assms by presburger+
  obtain vc tc where a: "a = (vc, tc)" by (cases a)
  have "fst (sphere_vertex nLat nLon lat lon a) ! (j * 3) = vc ! (j * 3)"
    "fst (sphere_vertex nLat nLon lat lon a) ! (j * 3 + 1) = vc ! (j * 3 + 1)"
    "fst (sphere_vertex nLat nLon lat lon a) ! (j * 3 + 2) = vc ! (j * 3 + 2)"
    unfolding a sphere_vertex_def Let_def using ne
    by (simp_all add: nth_list_update)
  then show ?thesis
    by (simp add: vertex_norm2_def a)
qed

lemma sphere_row:
  assumes "(lat * (nLon + 1) + n) * 3 \<le> length (fst a)"
  shows "length (fst (fold (\<lambda>lon b. sphere_vertex nLat nLon lat lon b) [0..<n] a)) = length (fst a)
    \<and> (\<forall>j. lat * (nLon + 1) \<le> j \<and> j < lat * (nLon + 1) + n \<longrightarrow>
          vertex_norm2 (fst (fold (\<lambda>lon b. sphere_vertex nLat nLon lat lon b) [0..<n] a)) j = 1)
    \<and> (\<forall>j. j < lat * (nLon + 1) \<or> lat * (nLon + 1) + n \<le> j \<longrightarrow>
          vertex_norm2 (fst (fold (\<lambda>lon b. sphere_vertex nLat nLon lat lon b) [0..<n] a)) j
            = vertex_norm2 (fst a) j)"
  using assms
proof (induction n)
  case 0
  then show ?case by simp
next
  case (Suc n)
  let ?b = "fold (\<lambda>lon b. sphere_vertex nLat nLon lat lon b) [0..<n] a"
  have p: "(lat * (nLon + 1) + n) * 3 \<le> length (fst a)"
    using Suc.prems by simp
  note IH = Suc.IH [OF p]
  have ih: "length (fst ?b) = length (fst a)"
    "\<And>j. lat * (nLon + 1) \<le> j \<Longrightarrow> j < lat * (nLon + 1) + n \<Longrightarrow> vertex_norm2 (fst ?b) j = 1"
    "\<And>j. j < lat * (nLon + 1) \<or> lat * (nLon + 1) + n \<le> j \<Longrightarrow>
        vertex_norm2 (fst ?b) j = vertex_norm2 (fst a) j"
    using IH by blast+
  have step: "fold (\<lambda>lon b. sphere_vertex nLat nLon lat lon b) [0..<Suc n] a
      = sphere_vertex nLat nLon lat n ?b"
    by simp
  have inb: "(lat * (nLon + 1) + n) * 3 + 2 < length (fst ?b)"
    using Suc.prems ih(1) by simp
  show ?case
    unfolding step
  proof (intro conjI allI impI)
    show "length (fst (sphere_vertex nLat nLon lat n ?b)) = length (fst a)"
      by (simp add: sphere_vertex_length ih(1))
  next
    fix j assume j: "lat * (nLon + 1) \<le> j \<and> j < lat * (nLon + 1) + Suc n"
    show "vertex_norm2 (fst (sphere_vertex nLat nLon lat n ?b)) j = 1"
    proof (cases "j = lat * (nLon + 1) + n")
      case True
      then show ?thesis using sphere_vertex_written [OF inb] by simp
    next
      case False
      then have "j < lat * (nLon + 1) + n" using j by simp
      then show ?thesis using sphere_vertex_frame [OF False] ih(2) j by simp
    qed
  next
    fix j assume j: "j < lat * (nLon + 1) \<or> lat * (nLon + 1) + Suc n \<le> j"
    then have ne: "j \<noteq> lat * (nLon + 1) + n"
      and out: "j < lat * (nLon + 1) \<or> lat * (nLon + 1) + n \<le> j"
      by auto
    show "vertex_norm2 (fst (sphere_vertex nLat nLon lat n ?b)) j = vertex_norm2 (fst a) j"
      using sphere_vertex_frame [OF ne, of nLat ?b] ih(3) [OF out] by simp
  qed
qed


lemma sphere_rows:
  assumes "m * (nLon + 1) * 3 \<le> length (fst a)"
  shows "length (fst (fold (\<lambda>lat b. fold (\<lambda>lon b. sphere_vertex nLat nLon lat lon b)
                                      [0..<nLon + 1] b) [0..<m] a)) = length (fst a)
    \<and> (\<forall>j. j < m * (nLon + 1) \<longrightarrow>
          vertex_norm2 (fst (fold (\<lambda>lat b. fold (\<lambda>lon b. sphere_vertex nLat nLon lat lon b)
                                      [0..<nLon + 1] b) [0..<m] a)) j = 1)
    \<and> (\<forall>j. m * (nLon + 1) \<le> j \<longrightarrow>
          vertex_norm2 (fst (fold (\<lambda>lat b. fold (\<lambda>lon b. sphere_vertex nLat nLon lat lon b)
                                      [0..<nLon + 1] b) [0..<m] a)) j
            = vertex_norm2 (fst a) j)"
  using assms
proof (induction m)
  case 0
  then show ?case by simp
next
  case (Suc m)
  let ?row = "\<lambda>lat b. fold (\<lambda>lon b. sphere_vertex nLat nLon lat lon b) [0..<nLon + 1] b"
  let ?b = "fold ?row [0..<m] a"
  have p: "m * (nLon + 1) * 3 \<le> length (fst a)"
    using Suc.prems by simp
  note IH = Suc.IH [OF p]
  have ih: "length (fst ?b) = length (fst a)"
    "\<And>j. j < m * (nLon + 1) \<Longrightarrow> vertex_norm2 (fst ?b) j = 1"
    "\<And>j. m * (nLon + 1) \<le> j \<Longrightarrow> vertex_norm2 (fst ?b) j = vertex_norm2 (fst a) j"
    using IH by blast+
  have step: "fold ?row [0..<Suc m] a = ?row m ?b"
    by simp
  have q: "(m * (nLon + 1) + (nLon + 1)) * 3 \<le> length (fst ?b)"
    using Suc.prems ih(1) by (simp add: algebra_simps)
  note R = sphere_row [OF q, of nLat]
  have row: "length (fst (?row m ?b)) = length (fst ?b)"
    "\<And>j. m * (nLon + 1) \<le> j \<Longrightarrow> j < m * (nLon + 1) + (nLon + 1) \<Longrightarrow>
        vertex_norm2 (fst (?row m ?b)) j = 1"
    "\<And>j. j < m * (nLon + 1) \<or> m * (nLon + 1) + (nLon + 1) \<le> j \<Longrightarrow>
        vertex_norm2 (fst (?row m ?b)) j = vertex_norm2 (fst ?b) j"
    using R by blast+
  have S: "Suc m * (nLon + 1) = m * (nLon + 1) + (nLon + 1)"
    by simp
  show ?case
    unfolding step S
  proof (intro conjI allI impI)
    show "length (fst (?row m ?b)) = length (fst a)"
      using row(1) ih(1) by simp
  next
    fix j assume j: "j < m * (nLon + 1) + (nLon + 1)"
    show "vertex_norm2 (fst (?row m ?b)) j = 1"
    proof (cases "j < m * (nLon + 1)")
      case True
      then show ?thesis using row(3) [of j] ih(2) [of j] by simp
    next
      case False
      then show ?thesis using row(2) [of j] j by simp
    qed
  next
    fix j assume j: "m * (nLon + 1) + (nLon + 1) \<le> j"
    then have "m * (nLon + 1) \<le> j" by simp
    then show "vertex_norm2 (fst (?row m ?b)) j = vertex_norm2 (fst a) j"
      using row(3) [of j] ih(3) [of j] j by simp
  qed
qed

lemma sphere_vertices_unit:
  assumes "length vc = (nLat + 1) * (nLon + 1) * 3" and "k < (nLat + 1) * (nLon + 1)"
  shows "vertex_norm2 (fst (sphere_vertices nLat nLon (vc, tc))) k = 1"
    and "length (fst (sphere_vertices nLat nLon (vc, tc))) = length vc"
proof -
  have prem: "(nLat + 1) * (nLon + 1) * 3 \<le> length (fst (vc, tc))"
    using assms(1) by simp
  note R = sphere_rows [OF prem, of nLat]
  show "vertex_norm2 (fst (sphere_vertices nLat nLon (vc, tc))) k = 1"
    unfolding sphere_vertices_def using R assms(2) by blast
  show "length (fst (sphere_vertices nLat nLon (vc, tc))) = length vc"
    unfolding sphere_vertices_def using R [THEN conjunct1] by (simp only: fst_conv)
qed

lemma sphere_vertices_length_snd:
  "length (snd (sphere_vertices nLat nLon a)) = length (snd a)"
  unfolding sphere_vertices_def
  by (rule fold_invariant [where P = "\<lambda>b. length (snd b) = length (snd a)"], simp,
      rule fold_invariant, simp, simp add: sphere_vertex_length)

lemma sphere_indices_length:
  "length (sphere_indices nLat nLon inds) = length inds"
  unfolding sphere_indices_def
  by (rule fold_invariant [where P = "\<lambda>b. length b = length inds"], simp,
      rule fold_invariant, simp, simp add: sphere_quad_def Let_def)

text \<open>
  Claim C6. With \<open>B\<close> bands of latitude and of longitude (128 in \<^verbatim>\<open>BuildSphere\<close>), the sphere
  builder either fails with \<^verbatim>\<open>VLC_ENOMEM\<close> or returns \<open>(B + 1)\<^sup>2\<close> vertices, three floats each,
  and \<open>6 B\<^sup>2\<close> indices, and every vertex is at distance 1 from the origin. The distance is
  exact here, the sine and the cosine being the real ones; the bound on \<open>B\<close> keeps the
  \<^verbatim>\<open>unsigned\<close> products of the code from wrapping.
\<close>

theorem sphere_counts_and_unit_vertices:
  "0 < B \<Longrightarrow> B < 2 ^ 14 \<Longrightarrow>
     (case BuildSphere_bands env B B of
        Inl e \<Rightarrow> e = VLC_ENOMEM
      | Inr g \<Rightarrow>
          nbVertices g = (B + 1)\<^sup>2 \<and> nbIndices g = 6 * B\<^sup>2
          \<and> length (vertexCoord g) = 3 * nbVertices g
          \<and> length (textureCoord g) = 2 * nbVertices g
          \<and> length (indices g) = nbIndices g
          \<and> (\<forall>k < nbVertices g.
                sqrt ((vertexCoord g ! (k * 3))\<^sup>2 + (vertexCoord g ! (k * 3 + 1))\<^sup>2
                      + (vertexCoord g ! (k * 3 + 2))\<^sup>2) = 1))"
proof -
  let ?a = "(replicate ((B + 1) * (B + 1) * 3) (0::real), replicate ((B + 1) * (B + 1) * 2) (0::real))"
  obtain vc tc where s: "sphere_vertices B B ?a = (vc, tc)"
    by (cases "sphere_vertices B B ?a")
  have lv: "length vc = (B + 1) * (B + 1) * 3"
    using sphere_vertices_unit(2) [of "fst ?a" B B 0 "snd ?a"] s by simp
  have lt: "length tc = (B + 1) * (B + 1) * 2"
    using sphere_vertices_length_snd [of B B ?a] s by simp
  have u: "\<And>k. k < (B + 1) * (B + 1) \<Longrightarrow> vertex_norm2 vc k = 1"
    using sphere_vertices_unit(1) [of "fst ?a" B B _ "snd ?a"] s by simp
  show ?thesis
    unfolding BuildSphere_bands_def Let_def s
    using lv lt u
    by (simp add: sphere_indices_length power2_eq_square vertex_norm2_def)
qed

theorem sphere_counts_and_unit_vertices_witness:
  "(0::nat) < 128 \<and> (128::nat) < 2 ^ 14
   \<and> nbVertices (projr (BuildSphere example_env)) = 16641
   \<and> nbIndices (projr (BuildSphere example_env)) = 98304
   \<and> length (vertexCoord (projr (BuildSphere example_env))) = 49923
   \<and> length (indices (projr (BuildSphere example_env))) = 98304
   \<and> sqrt ((vertexCoord (projr (BuildSphere example_env)) ! (0 * 3))\<^sup>2
           + (vertexCoord (projr (BuildSphere example_env)) ! (0 * 3 + 1))\<^sup>2
           + (vertexCoord (projr (BuildSphere example_env)) ! (0 * 3 + 2))\<^sup>2) = 1
   \<and> sqrt ((vertexCoord (projr (BuildSphere example_env)) ! (16640 * 3))\<^sup>2
           + (vertexCoord (projr (BuildSphere example_env)) ! (16640 * 3 + 1))\<^sup>2
           + (vertexCoord (projr (BuildSphere example_env)) ! (16640 * 3 + 2))\<^sup>2) = 1"
proof -
  have "\<exists>g. BuildSphere_bands example_env 128 128 = Inr g"
    by (simp add: BuildSphere_bands_def Let_def example_env_def split: prod.splits)
  then obtain g where g: "BuildSphere_bands example_env 128 128 = Inr g" by blast
  have a: "nbVertices g = 16641 \<and> nbIndices g = 98304
      \<and> length (vertexCoord g) = 49923 \<and> length (indices g) = 98304
      \<and> (\<forall>k < 16641. sqrt ((vertexCoord g ! (k * 3))\<^sup>2 + (vertexCoord g ! (k * 3 + 1))\<^sup>2
                            + (vertexCoord g ! (k * 3 + 2))\<^sup>2) = 1)"
    using sphere_counts_and_unit_vertices [of 128 example_env]
    by (simp add: g)
  then have q: "\<And>k. k < 16641 \<Longrightarrow>
      sqrt ((vertexCoord g ! (k * 3))\<^sup>2 + (vertexCoord g ! (k * 3 + 1))\<^sup>2
            + (vertexCoord g ! (k * 3 + 2))\<^sup>2) = 1"
    by blast
  have "sqrt ((vertexCoord g ! (0 * 3))\<^sup>2 + (vertexCoord g ! (0 * 3 + 1))\<^sup>2
                   + (vertexCoord g ! (0 * 3 + 2))\<^sup>2) = 1"
    and "sqrt ((vertexCoord g ! (16640 * 3))\<^sup>2 + (vertexCoord g ! (16640 * 3 + 1))\<^sup>2
               + (vertexCoord g ! (16640 * 3 + 2))\<^sup>2) = 1"
    by (rule q, simp)+
  with a show ?thesis
    by (simp add: BuildSphere_def g)
qed

end
